theory Spec2Isabelle
  imports Complex_Main
begin

section \<open>JavaScript values\<close>

subsection \<open>Numbers\<close>

text \<open>
  A JavaScript number is an IEEE 754 binary64 value. The model keeps every special value
  apart: \<open>Fin r\<close> is the finite number \<open>r\<close> (\<open>Fin 0\<close> is \<open>+0\<close>), \<open>NZero\<close> is \<open>-0\<close>,
  \<open>PInf\<close> and \<open>NInf\<close> are the two infinities and \<open>NaN\<close> is not-a-number. Finite
  arithmetic is exact arithmetic on \<open>real\<close>: the rounding of a result to the nearest
  binary64 value, and with it overflow and underflow, is outside the model.
\<close>

datatype jsnum = Fin real | NZero | PInf | NInf | NaN

text \<open>
  The number for an exact result \<open>r\<close>; \<open>neg\<close> is the sign an exact zero gets.
\<close>

definition fin :: "bool \<Rightarrow> real \<Rightarrow> jsnum" where
  "fin neg r = (if r = 0 then (if neg then NZero else Fin 0) else Fin r)"

fun isNaN :: "jsnum \<Rightarrow> bool" where
  "isNaN NaN = True"
| "isNaN _ = False"

fun isInf :: "jsnum \<Rightarrow> bool" where
  "isInf PInf = True"
| "isInf NInf = True"
| "isInf _ = False"

text \<open>The global \<open>isFinite\<close> on a number.\<close>

fun isFinite :: "jsnum \<Rightarrow> bool" where
  "isFinite (Fin r) = True"
| "isFinite NZero = True"
| "isFinite _ = False"

fun isZero :: "jsnum \<Rightarrow> bool" where
  "isZero (Fin r) = (r = 0)"
| "isZero NZero = True"
| "isZero _ = False"

text \<open>The sign bit (\<open>NaN\<close> is never asked).\<close>

fun negative :: "jsnum \<Rightarrow> bool" where
  "negative (Fin r) = (r < 0)"
| "negative NZero = True"
| "negative NInf = True"
| "negative _ = False"

text \<open>The real value of a finite number.\<close>

fun rv :: "jsnum \<Rightarrow> real" where
  "rv (Fin r) = r"
| "rv _ = 0"

definition infinity :: "bool \<Rightarrow> jsnum" where
  "infinity neg = (if neg then NInf else PInf)"

text \<open>The operators \<open>*\<close>, \<open>/\<close>, \<open>+\<close>, unary and binary \<open>-\<close> on numbers.\<close>

definition jmul :: "jsnum \<Rightarrow> jsnum \<Rightarrow> jsnum" where
  "jmul x y =
     (if isNaN x \<or> isNaN y then NaN
      else if isInf x \<or> isInf y then
        (if isZero x \<or> isZero y then NaN else infinity (negative x \<noteq> negative y))
      else fin (negative x \<noteq> negative y) (rv x * rv y))"

definition jdiv :: "jsnum \<Rightarrow> jsnum \<Rightarrow> jsnum" where
  "jdiv x y =
     (if isNaN x \<or> isNaN y then NaN
      else if isInf x then (if isInf y then NaN else infinity (negative x \<noteq> negative y))
      else if isInf y then fin (negative x \<noteq> negative y) 0
      else if isZero y then (if isZero x then NaN else infinity (negative x \<noteq> negative y))
      else fin (negative x \<noteq> negative y) (rv x / rv y))"

definition jadd :: "jsnum \<Rightarrow> jsnum \<Rightarrow> jsnum" where
  "jadd x y =
     (if isNaN x \<or> isNaN y then NaN
      else if isInf x then (if isInf y \<and> x \<noteq> y then NaN else x)
      else if isInf y then y
      else fin (x = NZero \<and> y = NZero) (rv x + rv y))"

fun jneg :: "jsnum \<Rightarrow> jsnum" where
  "jneg (Fin r) = (if r = 0 then NZero else Fin (- r))"
| "jneg NZero = Fin 0"
| "jneg PInf = NInf"
| "jneg NInf = PInf"
| "jneg NaN = NaN"

definition jsub :: "jsnum \<Rightarrow> jsnum \<Rightarrow> jsnum" where
  "jsub x y = jadd x (jneg y)"

text \<open>The comparisons \<open><\<close>, \<open>>\<close> and \<open><=\<close>: false as soon as one side is \<open>NaN\<close>.\<close>

definition jlt :: "jsnum \<Rightarrow> jsnum \<Rightarrow> bool" where
  "jlt x y =
     (if isNaN x \<or> isNaN y then False
      else if x = NInf then y \<noteq> NInf
      else if y = PInf then x \<noteq> PInf
      else if x = PInf \<or> y = NInf then False
      else rv x < rv y)"

definition jgt :: "jsnum \<Rightarrow> jsnum \<Rightarrow> bool" where
  "jgt x y = jlt y x"

definition jle :: "jsnum \<Rightarrow> jsnum \<Rightarrow> bool" where
  "jle x y = (\<not> isNaN x \<and> \<not> isNaN y \<and> \<not> jlt y x)"

text \<open>\<open>Math.max\<close> of two numbers: \<open>NaN\<close> wins, and \<open>+0\<close> is larger than \<open>-0\<close>.\<close>

definition Math_max :: "jsnum \<Rightarrow> jsnum \<Rightarrow> jsnum" where
  "Math_max x y =
     (if isNaN x \<or> isNaN y then NaN
      else if jlt x y then y
      else if jlt y x then x
      else if x = NZero then y else x)"

subsection \<open>Strings\<close>

text \<open>
  A JavaScript string is a sequence of UTF-16 code units. The OCR text holds full-width
  digits and Japanese keywords, so a code unit is a \<open>nat\<close>, not an 8-bit \<open>char\<close>;
  \<open>asc\<close> gives the code units of an ASCII literal.
\<close>

type_synonym jstring = "nat list"

definition asc :: "string \<Rightarrow> jstring" where
  "asc s = map of_char s"

text \<open>\<open>WhiteSpace\<close> and \<open>LineTerminator\<close> code units: what the white-space class of a regular expression matches and what
  \<open>parseFloat\<close> and \<open>parseInt\<close> skip in front.\<close>

definition isSpace :: "nat \<Rightarrow> bool" where
  "isSpace c =
     (c \<in> {0x09, 0x0A, 0x0B, 0x0C, 0x0D, 0x20, 0xA0, 0x1680, 0x2028, 0x2029, 0x202F,
            0x205F, 0x3000, 0xFEFF} \<or> (0x2000 \<le> c \<and> c \<le> 0x200A))"

text \<open>The digit class of a regular expression: an ASCII digit.\<close>

definition isDigit :: "nat \<Rightarrow> bool" where
  "isDigit c = (0x30 \<le> c \<and> c \<le> 0x39)"

text \<open>The value of a run of ASCII digits, read in base ten.\<close>

definition digitsValue :: "jstring \<Rightarrow> nat" where
  "digitsValue ds = foldl (\<lambda>a d. 10 * a + (d - 0x30)) 0 ds"

text \<open>An optional sign in front: whether it is \<open>-\<close>, and the rest.\<close>

fun splitSign :: "jstring \<Rightarrow> bool \<times> jstring" where
  "splitSign [] = (False, [])"
| "splitSign (c # cs) =
     (if c = 0x2D then (True, cs) else if c = 0x2B then (False, cs) else (False, c # cs))"

text \<open>
  The \<open>ExponentPart\<close> of a decimal literal at the front of the string: \<open>e\<close> or \<open>E\<close>, an
  optional sign and at least one digit; 0 when there is none.
\<close>

definition exponentPart :: "jstring \<Rightarrow> int" where
  "exponentPart s =
     (case s of
        [] \<Rightarrow> 0
      | c # cs \<Rightarrow>
          if c = 0x65 \<or> c = 0x45 then
            (let (neg, r) = splitSign cs; ds = takeWhile isDigit r
             in if ds = [] then 0
                else if neg then - int (digitsValue ds) else int (digitsValue ds))
          else 0)"

definition scale10 :: "real \<Rightarrow> int \<Rightarrow> real" where
  "scale10 x e = (if 0 \<le> e then x * 10 ^ nat e else x / 10 ^ nat (- e))"

text \<open>
  \<open>parseFloat\<close>: skip leading white space, then read the longest prefix that is a
  \<open>StrDecimalLiteral\<close> (an optional sign, then \<open>Infinity\<close>, or digits with an optional
  fraction and exponent); \<open>NaN\<close> when there is none.
\<close>

definition parseFloat :: "jstring \<Rightarrow> jsnum" where
  "parseFloat s =
     (let (neg, u) = splitSign (dropWhile isSpace s) in
      if take 8 u = asc ''Infinity'' then infinity neg
      else
        let ip = takeWhile isDigit u;
            r1 = dropWhile isDigit u;
            fp = (case r1 of [] \<Rightarrow> [] | c # cs \<Rightarrow> if c = 0x2E then takeWhile isDigit cs else []);
            r2 = (case r1 of [] \<Rightarrow> [] | c # cs \<Rightarrow> if c = 0x2E then dropWhile isDigit cs else r1)
        in if ip = [] \<and> fp = [] then NaN
           else
             let v = scale10 (real (digitsValue ip) + real (digitsValue fp) / 10 ^ length fp)
                       (exponentPart r2)
             in fin neg (if neg then - v else v))"

text \<open>
  \<open>parseInt(s, 10)\<close>: skip leading white space, an optional sign, then the longest run of
  digits; \<open>NaN\<close> when there is no digit.
\<close>

definition parseInt :: "jstring \<Rightarrow> jsnum" where
  "parseInt s =
     (let (neg, u) = splitSign (dropWhile isSpace s); ds = takeWhile isDigit u
      in if ds = [] then NaN
         else fin neg (if neg then - real (digitsValue ds) else real (digitsValue ds)))"

subsection \<open>Values of the input fields\<close>

text \<open>
  The four input fields hold \<open>string | number\<close>; \<open>numberOr\<close> takes \<open>any\<close> and maps
  \<open>null\<close> and \<open>undefined\<close> to the empty string first.
\<close>

datatype jsval = JNum jsnum | JStr jstring | JNull | JUndefined

section \<open>The calculation engine\<close>

text \<open>
  \<open>numberOr\<close>: a number is taken as it is, anything else is turned into a string, its
  commas are removed and \<open>parseFloat\<close> reads it (\<open>parsedNumber\<close> is the constant \<open>n\<close> of the
  source); a result that is not finite gives the fallback.
\<close>

definition parsedNumber :: "jsval \<Rightarrow> jsnum" where
  "parsedNumber val =
     (case val of
        JNum v \<Rightarrow> v
      | JStr s \<Rightarrow> parseFloat (filter (\<lambda>c. c \<noteq> 0x2C) s)
      | JNull \<Rightarrow> parseFloat []
      | JUndefined \<Rightarrow> parseFloat [])"

definition numberOr :: "jsval \<Rightarrow> jsnum \<Rightarrow> jsnum" where
  "numberOr val fallback = (let n = parsedNumber val in if isFinite n then n else fallback)"

text \<open>
  An entry of the \<open>PRESETS\<close> table: the constants of one machine model.
\<close>

record preset =
  replay :: jsnum
  cherry :: jsnum
  bell :: jsnum
  piero :: jsnum
  bigAvg :: jsnum
  regAvg :: jsnum
  cherryPay :: jsnum
  bellPay :: jsnum
  pieroPay :: jsnum

text \<open>
  The \<open>PRESETS\<close> object in the order of its keys (the code units of the six Japanese
  model names, written out).
\<close>

definition PRESETS :: "(jstring \<times> preset) list" where
  "PRESETS =
     [([0x30DE, 0x30A4, 0x30B8, 0x30E3, 0x30B0, 0x30E9, 0x30FC, 0x0056],
       \<lparr>replay = Fin 7.298, cherry = Fin 36, bell = Fin 1024, piero = Fin 1024,
        bigAvg = Fin 239.25, regAvg = Fin 95.25, cherryPay = Fin 2, bellPay = Fin 14,
        pieroPay = Fin 10\<rparr>),
      ([0x0053, 0x30A2, 0x30A4, 0x30E0, 0x30B8, 0x30E3, 0x30B0, 0x30E9, 0x30FC, 0x0045, 0x0058],
       \<lparr>replay = Fin 7.298, cherry = Fin 35.62, bell = Fin 1092.27, piero = Fin 1092.27,
        bigAvg = Fin 251.25, regAvg = Fin 95.25, cherryPay = Fin 2, bellPay = Fin 14,
        pieroPay = Fin 10\<rparr>),
      ([0x30CF, 0x30C3, 0x30D4, 0x30FC, 0x30B8, 0x30E3, 0x30B0, 0x30E9, 0x30FC, 0x0056, 0x2162],
       \<lparr>replay = Fin 7.298, cherry = Fin 56.55, bell = Fin 655.36, piero = Fin 655.36,
        bigAvg = Fin 239.7, regAvg = Fin 95.7, cherryPay = Fin 4, bellPay = Fin 14,
        pieroPay = Fin 10\<rparr>),
      ([0x30D5, 0x30A1, 0x30F3, 0x30AD, 0x30FC, 0x30B8, 0x30E3, 0x30B0, 0x30E9, 0x30FC, 0x0032],
       \<lparr>replay = Fin 7.298, cherry = Fin 35.62, bell = Fin 1092.27, piero = Fin 1092.27,
        bigAvg = Fin 239.25, regAvg = Fin 95.25, cherryPay = Fin 2, bellPay = Fin 14,
        pieroPay = Fin 10\<rparr>),
      ([0x30B4, 0x30FC, 0x30B4, 0x30FC, 0x30B8, 0x30E3, 0x30B0, 0x30E9, 0x30FC, 0x0033],
       \<lparr>replay = Fin 7.298, cherry = Fin 32.2, bell = Fin 1092.27, piero = Fin 1092.27,
        bigAvg = Fin 239.25, regAvg = Fin 95.25, cherryPay = Fin 2, bellPay = Fin 14,
        pieroPay = Fin 10\<rparr>),
      ([0x30DF, 0x30B9, 0x30BF, 0x30FC, 0x30B8, 0x30E3, 0x30B0, 0x30E9, 0x30FC],
       \<lparr>replay = Fin 7.298, cherry = Fin 37.24, bell = Fin 420, piero = Fin 655,
        bigAvg = Fin 239.25, regAvg = Fin 95.25, cherryPay = Fin 4, bellPay = Fin 14,
        pieroPay = Fin 10\<rparr>)]"

text \<open>The capture rates of a play style (the \<open>capture\<close> object of a \<open>STRATEGIES\<close> entry).\<close>

record capture =
  cap_cherry :: jsnum
  cap_bell :: jsnum
  cap_piero :: jsnum

text \<open>The \<open>STRATEGIES\<close> array: the key and the capture rates of each entry (the label is
  only displayed).\<close>

definition STRATEGIES :: "(string \<times> capture) list" where
  "STRATEGIES =
     [(''random'', \<lparr>cap_cherry = Fin 0.667, cap_bell = Fin 0.1, cap_piero = Fin 0.05\<rparr>),
      (''cherry90'', \<lparr>cap_cherry = Fin 0.90, cap_bell = Fin 0.05, cap_piero = Fin 0.01\<rparr>),
      (''cherry100'', \<lparr>cap_cherry = Fin 1.00, cap_bell = Fin 0, cap_piero = Fin 0\<rparr>),
      (''full'', \<lparr>cap_cherry = Fin 1.00, cap_bell = Fin 1.00, cap_piero = Fin 1.00\<rparr>)]"

text \<open>
  The state of the component that the engine and the OCR handler touch: the nine editable
  constants (declared \<open>number\<close>, set from a preset), the model name and the four input
  fields (\<open>string | number\<close>). The input widget of a constant stores a string of digits,
  which the operators \<open>*\<close> and \<open>/\<close> convert to the number it spells (the empty string to
  0); the model holds that number. The OCR log and busy flag are display only and left out.
\<close>

record app_state = preset +
  modelKey :: jstring
  G :: jsval
  big :: jsval
  reg :: jsval
  diff :: jsval

text \<open>
  The state of \<open>src/App.tsx\<close> when nothing has been saved: the first preset and the default
  inputs 3000, 10, 10 and 0.
\<close>

definition initialState :: app_state where
  "initialState =
     \<lparr>replay = Fin 7.298, cherry = Fin 36, bell = Fin 1024, piero = Fin 1024,
      bigAvg = Fin 239.25, regAvg = Fin 95.25, cherryPay = Fin 2, bellPay = Fin 14,
      pieroPay = Fin 10,
      modelKey = [0x30DE, 0x30A4, 0x30B8, 0x30E3, 0x30B0, 0x30E9, 0x30FC, 0x0056],
      G = JNum (Fin 3000), big = JNum (Fin 10), reg = JNum (Fin 10), diff = JNum (Fin 0)\<rparr>"

record calc_result =
  grapesCount :: jsnum
  grapeProb :: jsnum

text \<open>\<open>calcResultByCapture\<close> of \<open>src/App.tsx\<close>, a closure over the component state.\<close>

definition calcResultByCapture :: "app_state \<Rightarrow> capture \<Rightarrow> calc_result" where
  "calcResultByCapture st cap =
     (let g = numberOr (G st) (Fin 0);
          B = numberOr (big st) (Fin 0);
          R = numberOr (reg st) (Fin 0);
          D = numberOr (diff st) (Fin 0);
          coinIn = jsub (jmul (Fin 3) g) (jmul (Fin 3) (jdiv g (replay st)));
          outBigReg = jadd (jmul B (bigAvg st)) (jmul R (regAvg st));
          outOthers =
            jadd (jadd (jmul (jmul (jdiv g (cherry st)) (cherryPay st)) (cap_cherry cap))
                       (jmul (jmul (jdiv g (bell st)) (bellPay st)) (cap_bell cap)))
                 (jmul (jmul (jdiv g (piero st)) (pieroPay st)) (cap_piero cap));
          outKnown = jadd outBigReg outOthers;
          grapesCountRaw = jdiv (jsub (jadd D coinIn) outKnown) (Fin 8);
          grapesCount = Math_max (Fin 0) grapesCountRaw;
          grapeProb = (if jgt grapesCount (Fin 0) then jdiv g grapesCount else PInf)
      in \<lparr>grapesCount = grapesCount, grapeProb = grapeProb\<rparr>)"

text \<open>\<open>resultsByStrategy\<close>: one result per entry of \<open>STRATEGIES\<close>, in its order.\<close>

definition resultsByStrategy :: "app_state \<Rightarrow> (string \<times> calc_result) list" where
  "resultsByStrategy st = map (\<lambda>(key, cap). (key, calcResultByCapture st cap)) STRATEGIES"

subsection \<open>The data model's invariants and the specification's formula\<close>

text \<open>
  The invariants of the data model, as far as the engine needs them: every constant of the
  preset is a finite number and no denominator is zero; every capture fraction is finite.
\<close>

definition presetOK :: "'a preset_scheme \<Rightarrow> bool" where
  "presetOK st =
     (isFinite (replay st) \<and> \<not> isZero (replay st) \<and>
      isFinite (cherry st) \<and> \<not> isZero (cherry st) \<and>
      isFinite (bell st) \<and> \<not> isZero (bell st) \<and>
      isFinite (piero st) \<and> \<not> isZero (piero st) \<and>
      isFinite (bigAvg st) \<and> isFinite (regAvg st) \<and>
      isFinite (cherryPay st) \<and> isFinite (bellPay st) \<and> isFinite (pieroPay st))"

definition captureOK :: "capture \<Rightarrow> bool" where
  "captureOK cap =
     (isFinite (cap_cherry cap) \<and> isFinite (cap_bell cap) \<and> isFinite (cap_piero cap))"

text \<open>
  The balance equation in the specification's words, over the same numbers:
  \<open>coinIn = 3 G - 3 (G / replayDenom)\<close>; \<open>outKnown\<close> is the two jackpot payouts plus the sum,
  over the three other symbols, of \<open>(G / denom) payout captureFraction\<close>;
  \<open>grapesCount = max(0, (D + coinIn - outKnown) / 8)\<close>; the probability is
  \<open>G / grapesCount\<close> when \<open>grapesCount > 0\<close> and \<open>+infinity\<close> otherwise.
\<close>

definition coinIn_spec :: "jsnum \<Rightarrow> jsnum \<Rightarrow> jsnum" where
  "coinIn_spec g replayDenom = jsub (jmul (Fin 3) g) (jmul (Fin 3) (jdiv g replayDenom))"

definition symbolOut_spec :: "jsnum \<Rightarrow> jsnum \<times> jsnum \<times> jsnum \<Rightarrow> jsnum" where
  "symbolOut_spec g s =
     (case s of (denom, payout, captureFraction) \<Rightarrow>
        jmul (jmul (jdiv g denom) payout) captureFraction)"

fun sum_spec :: "jsnum list \<Rightarrow> jsnum" where
  "sum_spec [] = Fin 0"
| "sum_spec (x # xs) = foldl jadd x xs"

definition outKnown_spec :: "jsnum \<Rightarrow> jsnum \<Rightarrow> jsnum \<Rightarrow> app_state \<Rightarrow> capture \<Rightarrow> jsnum" where
  "outKnown_spec g B R st cap =
     jadd (jadd (jmul B (bigAvg st)) (jmul R (regAvg st)))
          (sum_spec (map (symbolOut_spec g)
             [(cherry st, cherryPay st, cap_cherry cap),
              (bell st, bellPay st, cap_bell cap),
              (piero st, pieroPay st, cap_piero cap)]))"

definition reconcile_spec ::
  "jsnum \<Rightarrow> jsnum \<Rightarrow> jsnum \<Rightarrow> jsnum \<Rightarrow> app_state \<Rightarrow> capture \<Rightarrow> calc_result" where
  "reconcile_spec g B R D st cap =
     (let count = Math_max (Fin 0)
            (jdiv (jsub (jadd D (coinIn_spec g (replay st))) (outKnown_spec g B R st cap)) (Fin 8))
      in \<lparr>grapesCount = count,
          grapeProb = (if jgt count (Fin 0) then jdiv g count else PInf)\<rparr>)"




section \<open>The OCR extraction pipeline\<close>

subsection \<open>String methods\<close>

text \<open>
  \<open>toLowerCase\<close>, one code unit at a time, on the cased letters that the two OCR languages
  (Japanese and English) and the preset names contain: ASCII, Latin-1, the Roman numerals
  and the full-width Latin letters. The built-in also lowers the letters of other scripts;
  the model leaves every other code unit as it is.
\<close>

definition lowerUnit :: "nat \<Rightarrow> nat" where
  "lowerUnit c =
     (if 0x41 \<le> c \<and> c \<le> 0x5A then c + 0x20
      else if 0xC0 \<le> c \<and> c \<le> 0xDE \<and> c \<noteq> 0xD7 then c + 0x20
      else if 0x2160 \<le> c \<and> c \<le> 0x216F then c + 0x10
      else if 0xFF21 \<le> c \<and> c \<le> 0xFF3A then c + 0x20
      else c)"

definition toLowerCase :: "jstring \<Rightarrow> jstring" where
  "toLowerCase s = map lowerUnit s"

text \<open>\<open>t.includes(k)\<close>: \<open>k\<close> occurs in \<open>t\<close> at some position.\<close>

fun str_includes :: "jstring \<Rightarrow> jstring \<Rightarrow> bool" where
  "str_includes [] k = (k = [])"
| "str_includes (c # cs) k = (take (length k) (c # cs) = k \<or> str_includes cs k)"

text \<open>The global replacements of the source, each over a class of single code units.\<close>

text \<open>Full-width digits to ASCII digits: the first \<open>replace\<close> of \<open>parseFromText\<close>.\<close>

definition halfwidthDigits :: "jstring \<Rightarrow> jstring" where
  "halfwidthDigits s = map (\<lambda>d. if 0xFF10 \<le> d \<and> d \<le> 0xFF19 then d - 0xFF10 + 0x30 else d) s"

text \<open>A space, a comma or a tab: the class of the second \<open>replace\<close>.\<close>

definition isSeparator :: "nat \<Rightarrow> bool" where
  "isSeparator c = (c = 0x20 \<or> c = 0x2C \<or> c = 0x09)"

text \<open>Every maximal run of separators becomes one space.\<close>

function collapseSeparators :: "jstring \<Rightarrow> jstring" where
  "collapseSeparators [] = []"
| "collapseSeparators (c # cs) =
     (if isSeparator c then 0x20 # collapseSeparators (dropWhile isSeparator cs)
      else c # collapseSeparators cs)"
  by pat_completeness auto
termination
  by (relation "measure length") (auto simp: length_dropWhile_le le_imp_less_Suc)

text \<open>\<open>replace(/,/g, "")\<close>.\<close>

definition stripCommas :: "jstring \<Rightarrow> jstring" where
  "stripCommas s = filter (\<lambda>c. c \<noteq> 0x2C) s"

text \<open>\<open>replace\<close> of every occurrence of one code unit by another.\<close>

definition replaceUnit :: "nat \<Rightarrow> nat \<Rightarrow> jstring \<Rightarrow> jstring" where
  "replaceUnit a b s = map (\<lambda>c. if c = a then b else c) s"

text \<open>The removal of every white-space code unit (the \<open>replace\<close> of the model-name test).\<close>

definition stripSpaces :: "jstring \<Rightarrow> jstring" where
  "stripSpaces s = filter (\<lambda>c. \<not> isSpace c) s"

subsection \<open>Regular expressions\<close>

text \<open>
  The patterns of the source as syntax trees, and the backtracking matcher of ECMAScript
  over them: a matcher takes the rest of the input, the captures so far and a continuation,
  and returns the captures of the first successful path. Every quantifier of the source
  stands on a single character class (\<open>Rep\<close>, greedy, with a minimum and an optional
  maximum) or is a \<open>?\<close> (\<open>Opt\<close>, greedy).
\<close>

datatype regex =
    Str jstring
  | Cls "nat \<Rightarrow> bool"
  | Seq regex regex
  | Alt regex regex
  | Group nat regex
  | Opt regex
  | Rep "nat \<Rightarrow> bool" nat "nat option"
  | NotAhead regex

type_synonym captures = "nat \<rightharpoonup> jstring"

fun repeatClass ::
  "(nat \<Rightarrow> bool) \<Rightarrow> nat \<Rightarrow> nat option \<Rightarrow> jstring \<Rightarrow> captures \<Rightarrow>
   (jstring \<Rightarrow> captures \<Rightarrow> captures option) \<Rightarrow> captures option" where
  "repeatClass P lo hi [] c k = (if lo = 0 then k [] c else None)"
| "repeatClass P lo hi (x # xs) c k =
     (if hi = Some 0 \<or> \<not> P x then (if lo = 0 then k (x # xs) c else None)
      else (case repeatClass P (lo - 1) (map_option (\<lambda>h. h - 1) hi) xs c k of
              Some r \<Rightarrow> Some r
            | None \<Rightarrow> if lo = 0 then k (x # xs) c else None))"

primrec matchAt ::
  "regex \<Rightarrow> jstring \<Rightarrow> captures \<Rightarrow> (jstring \<Rightarrow> captures \<Rightarrow> captures option) \<Rightarrow>
   captures option" where
  "matchAt (Str s) xs c k = (if take (length s) xs = s then k (drop (length s) xs) c else None)"
| "matchAt (Cls P) xs c k =
     (case xs of [] \<Rightarrow> None | x # xs' \<Rightarrow> if P x then k xs' c else None)"
| "matchAt (Seq a b) xs c k = matchAt a xs c (\<lambda>ys c'. matchAt b ys c' k)"
| "matchAt (Alt a b) xs c k =
     (case matchAt a xs c k of Some r \<Rightarrow> Some r | None \<Rightarrow> matchAt b xs c k)"
| "matchAt (Group n a) xs c k =
     matchAt a xs c (\<lambda>ys c'. k ys (c'(n \<mapsto> take (length xs - length ys) xs)))"
| "matchAt (Opt a) xs c k =
     (case matchAt a xs c (\<lambda>ys c'. if length ys = length xs then None else k ys c') of
        Some r \<Rightarrow> Some r
      | None \<Rightarrow> k xs c)"
| "matchAt (Rep P lo hi) xs c k = repeatClass P lo hi xs c k"
| "matchAt (NotAhead a) xs c k =
     (case matchAt a xs c (\<lambda>ys c'. Some c') of Some r \<Rightarrow> None | None \<Rightarrow> k xs c)"

text \<open>
  \<open>text.match(r)\<close> for a pattern without flags: the match at the leftmost position that
  has one; the result gives the capture groups (\<open>m[1]\<close>, \<open>m[2]\<close>, ...), \<open>None\<close> is \<open>null\<close>.
\<close>

fun search :: "regex \<Rightarrow> jstring \<Rightarrow> captures option" where
  "search r [] = matchAt r [] Map.empty (\<lambda>ys c. Some c)"
| "search r (x # xs) =
     (case matchAt r (x # xs) Map.empty (\<lambda>ys c. Some c) of
        Some m \<Rightarrow> Some m
      | None \<Rightarrow> search r xs)"

text \<open>A sequence and an alternative of several patterns.\<close>

fun seqs :: "regex list \<Rightarrow> regex" where
  "seqs [] = Str []"
| "seqs [r] = r"
| "seqs (r # rs) = Seq r (seqs rs)"

fun alts :: "regex list \<Rightarrow> regex" where
  "alts [] = Str []"
| "alts [r] = r"
| "alts (r # rs) = Alt r (alts rs)"

text \<open>The class of the ASCII and the full-width colon, and the class \<open>[+-]\<close>.\<close>

definition isColon :: "nat \<Rightarrow> bool" where
  "isColon c = (c = 0x3A \<or> c = 0xFF1A)"

definition isSign :: "nat \<Rightarrow> bool" where
  "isSign c = (c = 0x2B \<or> c = 0x2D)"

subsection \<open>parseFromText\<close>

text \<open>
  The loop of a field: the captures of the first pattern of the list that matches.
\<close>

fun firstMatch :: "regex list \<Rightarrow> jstring \<Rightarrow> captures option" where
  "firstMatch [] text = None"
| "firstMatch (r # rs) text =
     (case search r text of Some m \<Rightarrow> Some m | None \<Rightarrow> firstMatch rs text)"

text \<open>\<open>a || b\<close> on two capture groups: the first unless it is undefined or empty.\<close>

definition orElse :: "jstring option \<Rightarrow> jstring option \<Rightarrow> jstring option" where
  "orElse a b = (case a of None \<Rightarrow> b | Some s \<Rightarrow> if s = [] then b else Some s)"

text \<open>\<open>parseInt(g, 10)\<close> on a capture group; \<open>undefined\<close> reads as the text \<open>undefined\<close>.\<close>

definition parseIntGroup :: "jstring option \<Rightarrow> jsnum" where
  "parseIntGroup g = (case g of None \<Rightarrow> parseInt (asc ''undefined'') | Some s \<Rightarrow> parseInt s)"

text \<open>
  The normalized text (the constant \<open>text\<close>): full-width digits to ASCII, runs of spaces,
  commas and tabs to one space, commas removed, the full-width \<open>G\<close>, minus and plus to
  ASCII, and lower case.
\<close>

definition normalizeText :: "jstring \<Rightarrow> jstring" where
  "normalizeText raw =
     toLowerCase
       (replaceUnit 0xFF0B 0x2B
         (replaceUnit 0xFF0D 0x2D
           (replaceUnit 0xFF27 0x47
             (stripCommas (collapseSeparators (halfwidthDigits raw))))))"

text \<open>The model name: the first key of \<open>PRESETS\<close> that the text contains, white space aside.\<close>

fun findModelKey :: "jstring list \<Rightarrow> jstring \<Rightarrow> jstring option" where
  "findModelKey [] text = None"
| "findModelKey (key # keys) text =
     (if str_includes (stripSpaces text) (stripSpaces (toLowerCase key)) then Some key
      else findModelKey keys text)"

text \<open>
  The spin count: the keyword for the number of spins (three spellings), an optional colon
  and 2 to 6 digits; or 3 to 6 digits and the letter \<open>g\<close> with no slash after it.
\<close>

definition gLabeled :: regex where
  "gLabeled =
     seqs [Group 1 (alts [Seq (Opt (Str [0x7DCF])) (Str [0x56DE, 0x8EE2, 0x6570]),
                          Str [0x67, 0x6570],
                          Str [0x56DE, 0x8EE2, 0x6570]]),
           Rep isSpace 0 None, Opt (Cls isColon), Rep isSpace 0 None,
           Group 2 (Rep isDigit 2 (Some 6)),
           Rep isSpace 0 None, Opt (Str [0x67])]"

definition gBare :: regex where
  "gBare =
     seqs [Group 1 (Rep isDigit 3 (Some 6)),
           Rep isSpace 0 None, Str [0x67], NotAhead (Str [0x2F])]"

definition gPatterns :: "regex list" where
  "gPatterns = [gLabeled, gBare]"

text \<open>The two jackpot counts: \<open>bb\<close>, \<open>big\<close> or the katakana word, and \<open>rb\<close>, \<open>reg\<close> or the
  katakana word, an optional colon and 1 to 3 digits.\<close>

definition bbPatterns :: "regex list" where
  "bbPatterns =
     [seqs [Group 1 (alts [Str (asc ''bb''), Str (asc ''big''), Str [0x30D3, 0x30C3, 0x30B0]]),
            Rep isSpace 0 None, Opt (Cls isColon), Rep isSpace 0 None,
            Group 2 (Rep isDigit 1 (Some 3))]]"

definition rbPatterns :: "regex list" where
  "rbPatterns =
     [seqs [Group 1 (alts [Str (asc ''rb''), Str (asc ''reg''),
                           Str [0x30EC, 0x30AE, 0x30E5, 0x30E9, 0x30FC]]),
            Rep isSpace 0 None, Opt (Cls isColon), Rep isSpace 0 None,
            Group 2 (Rep isDigit 1 (Some 3))]]"

text \<open>
  The net difference: a keyword (three spellings), an optional colon and an optionally
  signed number of 1 to 6 digits; or a signed number of 1 to 6 digits.
\<close>

definition diffPatterns :: "regex list" where
  "diffPatterns =
     [seqs [Group 1 (alts [Seq (Str [0x5DEE, 0x679A]) (Opt (Group 2 (Str [0x6570]))),
                           Str [0x5DEE, 0x7389],
                           Str [0x5DEE, 0x679A, 0x6570]]),
            Rep isSpace 0 None, Opt (Cls isColon), Rep isSpace 0 None,
            Group 3 (Seq (Opt (Cls isSign)) (Rep isDigit 1 (Some 6)))],
      seqs [Group 1 (Seq (Cls isSign) (Rep isDigit 1 (Some 6))),
            Rep isSpace 0 None, Opt (Group 2 (Str [0x679A]))]]"

text \<open>The four fields, each \<open>undefined\<close> (\<open>None\<close>) unless one of its patterns matches.\<close>

definition findG :: "jstring \<Rightarrow> jsnum option" where
  "findG text = map_option (\<lambda>m. parseIntGroup (orElse (m 2) (m 1))) (firstMatch gPatterns text)"

definition findBig :: "jstring \<Rightarrow> jsnum option" where
  "findBig text = map_option (\<lambda>m. parseIntGroup (m 2)) (firstMatch bbPatterns text)"

definition findReg :: "jstring \<Rightarrow> jsnum option" where
  "findReg text = map_option (\<lambda>m. parseIntGroup (m 2)) (firstMatch rbPatterns text)"

definition findDiff :: "jstring \<Rightarrow> jsnum option" where
  "findDiff text =
     map_option (\<lambda>m. parseIntGroup (orElse (m 3) (m 1))) (firstMatch diffPatterns text)"

text \<open>
  What the fallback of the spin count looks for: the text holds the run \<open>ds\<close> of 3 to 6
  digits, then white space or nothing, then the letter \<open>g\<close>, and no slash right after it.
\<close>

definition bareSpinRun :: "jstring \<Rightarrow> jstring \<Rightarrow> bool" where
  "bareSpinRun t ds =
     (\<exists>pre ws post. t = pre @ ds @ ws @ [0x67] @ post \<and> 3 \<le> length ds \<and> length ds \<le> 6 \<and>
        (\<forall>d\<in>set ds. isDigit d) \<and> (\<forall>w\<in>set ws. isSpace w) \<and> take 1 post \<noteq> [0x2F])"

text \<open>A field is present in a text when one of its patterns matches there.\<close>

definition fieldPresent :: "regex list \<Rightarrow> jstring \<Rightarrow> bool" where
  "fieldPresent rs text = (\<exists>r\<in>set rs. search r text \<noteq> None)"

text \<open>The record that \<open>parseFromText\<close> returns; a field that is \<open>None\<close> is \<open>undefined\<close>.\<close>

record parsed =
  p_modelKey :: "jstring option"
  p_G :: "jsnum option"
  p_big :: "jsnum option"
  p_reg :: "jsnum option"
  p_diff :: "jsnum option"

text \<open>\<open>parseFromText\<close> of \<open>src/App.tsx\<close>; \<open>None\<close> is \<open>null\<close>.\<close>

definition parseFromText :: "jstring \<Rightarrow> parsed option" where
  "parseFromText raw =
     (if raw = [] then None
      else
        let text = normalizeText raw;
            modelKey = findModelKey (map fst PRESETS) text;
            G = findG text;
            big = findBig text;
            reg = findReg text;
            diff = findDiff text
        in if G = None \<and> big = None \<and> reg = None \<and> diff = None then None
           else Some \<lparr>p_modelKey = modelKey, p_G = G, p_big = big, p_reg = reg, p_diff = diff\<rparr>)"

section \<open>The second variant of the component\<close>

text \<open>
  The repository holds the component twice. The definitions above are those of
  \<open>src/App.tsx\<close>; the ones below are written from the other file, \<open>src/unnamed/part_000\<close>,
  function by function, with the suffix \<open>part000\<close>. The JavaScript built-ins, the regular
  expression matcher and the record types are shared.
\<close>

subsection \<open>Tables and engine of the second variant\<close>

definition PRESETS_part000 :: "(jstring \<times> preset) list" where
  "PRESETS_part000 =
     [([0x30DE, 0x30A4, 0x30B8, 0x30E3, 0x30B0, 0x30E9, 0x30FC, 0x0056],
       \<lparr>replay = Fin 7.298, cherry = Fin 36, bell = Fin 1024, piero = Fin 1024,
        bigAvg = Fin 239.25, regAvg = Fin 95.25, cherryPay = Fin 2, bellPay = Fin 14,
        pieroPay = Fin 10\<rparr>),
      ([0x0053, 0x30A2, 0x30A4, 0x30E0, 0x30B8, 0x30E3, 0x30B0, 0x30E9, 0x30FC, 0x0045, 0x0058],
       \<lparr>replay = Fin 7.298, cherry = Fin 35.62, bell = Fin 1092.27, piero = Fin 1092.27,
        bigAvg = Fin 251.25, regAvg = Fin 95.25, cherryPay = Fin 2, bellPay = Fin 14,
        pieroPay = Fin 10\<rparr>),
      ([0x30CF, 0x30C3, 0x30D4, 0x30FC, 0x30B8, 0x30E3, 0x30B0, 0x30E9, 0x30FC, 0x0056, 0x2162],
       \<lparr>replay = Fin 7.298, cherry = Fin 56.55, bell = Fin 655.36, piero = Fin 655.36,
        bigAvg = Fin 239.7, regAvg = Fin 95.7, cherryPay = Fin 4, bellPay = Fin 14,
        pieroPay = Fin 10\<rparr>),
      ([0x30D5, 0x30A1, 0x30F3, 0x30AD, 0x30FC, 0x30B8, 0x30E3, 0x30B0, 0x30E9, 0x30FC, 0x0032],
       \<lparr>replay = Fin 7.298, cherry = Fin 35.62, bell = Fin 1092.27, piero = Fin 1092.27,
        bigAvg = Fin 239.25, regAvg = Fin 95.25, cherryPay = Fin 2, bellPay = Fin 14,
        pieroPay = Fin 10\<rparr>),
      ([0x30B4, 0x30FC, 0x30B4, 0x30FC, 0x30B8, 0x30E3, 0x30B0, 0x30E9, 0x30FC, 0x0033],
       \<lparr>replay = Fin 7.298, cherry = Fin 32.2, bell = Fin 1092.27, piero = Fin 1092.27,
        bigAvg = Fin 239.25, regAvg = Fin 95.25, cherryPay = Fin 2, bellPay = Fin 14,
        pieroPay = Fin 10\<rparr>),
      ([0x30DF, 0x30B9, 0x30BF, 0x30FC, 0x30B8, 0x30E3, 0x30B0, 0x30E9, 0x30FC],
       \<lparr>replay = Fin 7.298, cherry = Fin 37.24, bell = Fin 420, piero = Fin 655,
        bigAvg = Fin 239.25, regAvg = Fin 95.25, cherryPay = Fin 4, bellPay = Fin 14,
        pieroPay = Fin 10\<rparr>)]"

definition STRATEGIES_part000 :: "(string \<times> capture) list" where
  "STRATEGIES_part000 =
     [(''random'', \<lparr>cap_cherry = Fin 0.667, cap_bell = Fin 0.1, cap_piero = Fin 0.05\<rparr>),
      (''cherry90'', \<lparr>cap_cherry = Fin 0.90, cap_bell = Fin 0.05, cap_piero = Fin 0.01\<rparr>),
      (''cherry100'', \<lparr>cap_cherry = Fin 1.00, cap_bell = Fin 0, cap_piero = Fin 0\<rparr>),
      (''full'', \<lparr>cap_cherry = Fin 1.00, cap_bell = Fin 1.00, cap_piero = Fin 1.00\<rparr>)]"

definition parsedNumber_part000 :: "jsval \<Rightarrow> jsnum" where
  "parsedNumber_part000 val =
     (case val of
        JNum v \<Rightarrow> v
      | JStr s \<Rightarrow> parseFloat (filter (\<lambda>c. c \<noteq> 0x2C) s)
      | JNull \<Rightarrow> parseFloat []
      | JUndefined \<Rightarrow> parseFloat [])"

definition numberOr_part000 :: "jsval \<Rightarrow> jsnum \<Rightarrow> jsnum" where
  "numberOr_part000 val fallback = (let n = parsedNumber_part000 val in if isFinite n then n else fallback)"

text \<open>The state of the second variant when nothing has been saved: the inputs are blank.\<close>

definition initialState_part000 :: app_state where
  "initialState_part000 =
     \<lparr>replay = Fin 7.298, cherry = Fin 36, bell = Fin 1024, piero = Fin 1024,
      bigAvg = Fin 239.25, regAvg = Fin 95.25, cherryPay = Fin 2, bellPay = Fin 14,
      pieroPay = Fin 10,
      modelKey = [0x30DE, 0x30A4, 0x30B8, 0x30E3, 0x30B0, 0x30E9, 0x30FC, 0x0056],
      G = JStr [], big = JStr [], reg = JStr [], diff = JStr []\<rparr>"

definition calcResultByCapture_part000 :: "app_state \<Rightarrow> capture \<Rightarrow> calc_result" where
  "calcResultByCapture_part000 st cap =
     (let g = numberOr_part000 (G st) (Fin 0);
          B = numberOr_part000 (big st) (Fin 0);
          R = numberOr_part000 (reg st) (Fin 0);
          D = numberOr_part000 (diff st) (Fin 0);
          coinIn = jsub (jmul (Fin 3) g) (jmul (Fin 3) (jdiv g (replay st)));
          outBigReg = jadd (jmul B (bigAvg st)) (jmul R (regAvg st));
          outOthers =
            jadd (jadd (jmul (jmul (jdiv g (cherry st)) (cherryPay st)) (cap_cherry cap))
                       (jmul (jmul (jdiv g (bell st)) (bellPay st)) (cap_bell cap)))
                 (jmul (jmul (jdiv g (piero st)) (pieroPay st)) (cap_piero cap));
          outKnown = jadd outBigReg outOthers;
          grapesCountRaw = jdiv (jsub (jadd D coinIn) outKnown) (Fin 8);
          grapesCount = Math_max (Fin 0) grapesCountRaw;
          grapeProb = (if jgt grapesCount (Fin 0) then jdiv g grapesCount else PInf)
      in \<lparr>grapesCount = grapesCount, grapeProb = grapeProb\<rparr>)"

subsection \<open>Extraction of the second variant\<close>

definition normalizeText_part000 :: "jstring \<Rightarrow> jstring" where
  "normalizeText_part000 raw =
     toLowerCase
       (replaceUnit 0xFF0B 0x2B
         (replaceUnit 0xFF0D 0x2D
           (replaceUnit 0xFF27 0x47
             (stripCommas (collapseSeparators (halfwidthDigits raw))))))"

definition gLabeled_part000 :: regex where
  "gLabeled_part000 =
     seqs [Group 1 (alts [Seq (Opt (Str [0x7DCF])) (Str [0x56DE, 0x8EE2, 0x6570]),
                          Str [0x67, 0x6570],
                          Str [0x56DE, 0x8EE2, 0x6570]]),
           Rep isSpace 0 None, Opt (Cls isColon), Rep isSpace 0 None,
           Group 2 (Rep isDigit 2 (Some 6)),
           Rep isSpace 0 None, Opt (Str [0x67])]"

definition gBare_part000 :: regex where
  "gBare_part000 =
     seqs [Group 1 (Rep isDigit 3 (Some 6)),
           Rep isSpace 0 None, Str [0x67], NotAhead (Str [0x2F])]"

definition gPatterns_part000 :: "regex list" where
  "gPatterns_part000 = [gLabeled_part000, gBare_part000]"

definition bbPatterns_part000 :: "regex list" where
  "bbPatterns_part000 =
     [seqs [Group 1 (alts [Str (asc ''bb''), Str (asc ''big''), Str [0x30D3, 0x30C3, 0x30B0]]),
            Rep isSpace 0 None, Opt (Cls isColon), Rep isSpace 0 None,
            Group 2 (Rep isDigit 1 (Some 3))]]"

definition rbPatterns_part000 :: "regex list" where
  "rbPatterns_part000 =
     [seqs [Group 1 (alts [Str (asc ''rb''), Str (asc ''reg''),
                           Str [0x30EC, 0x30AE, 0x30E5, 0x30E9, 0x30FC]]),
            Rep isSpace 0 None, Opt (Cls isColon), Rep isSpace 0 None,
            Group 2 (Rep isDigit 1 (Some 3))]]"

definition diffPatterns_part000 :: "regex list" where
  "diffPatterns_part000 =
     [seqs [Group 1 (alts [Seq (Str [0x5DEE, 0x679A]) (Opt (Group 2 (Str [0x6570]))),
                           Str [0x5DEE, 0x7389],
                           Str [0x5DEE, 0x679A, 0x6570]]),
            Rep isSpace 0 None, Opt (Cls isColon), Rep isSpace 0 None,
            Group 3 (Seq (Opt (Cls isSign)) (Rep isDigit 1 (Some 6)))],
      seqs [Group 1 (Seq (Cls isSign) (Rep isDigit 1 (Some 6))),
            Rep isSpace 0 None, Opt (Group 2 (Str [0x679A]))]]"

definition findG_part000 :: "jstring \<Rightarrow> jsnum option" where
  "findG_part000 text = map_option (\<lambda>m. parseIntGroup (orElse (m 2) (m 1))) (firstMatch gPatterns_part000 text)"

definition findBig_part000 :: "jstring \<Rightarrow> jsnum option" where
  "findBig_part000 text = map_option (\<lambda>m. parseIntGroup (m 2)) (firstMatch bbPatterns_part000 text)"

definition findReg_part000 :: "jstring \<Rightarrow> jsnum option" where
  "findReg_part000 text = map_option (\<lambda>m. parseIntGroup (m 2)) (firstMatch rbPatterns_part000 text)"

definition findDiff_part000 :: "jstring \<Rightarrow> jsnum option" where
  "findDiff_part000 text =
     map_option (\<lambda>m. parseIntGroup (orElse (m 3) (m 1))) (firstMatch diffPatterns_part000 text)"

definition parseFromText_part000 :: "jstring \<Rightarrow> parsed option" where
  "parseFromText_part000 raw =
     (if raw = [] then None
      else
        let text = normalizeText_part000 raw;
            modelKey = findModelKey (map fst PRESETS_part000) text;
            G = findG_part000 text;
            big = findBig_part000 text;
            reg = findReg_part000 text;
            diff = findDiff_part000 text
        in if G = None \<and> big = None \<and> reg = None \<and> diff = None then None
           else Some \<lparr>p_modelKey = modelKey, p_G = G, p_big = big, p_reg = reg, p_diff = diff\<rparr>)"

section \<open>The OCR handler: merging the extracted fields\<close>

text \<open>\<open>String.prototype.trim\<close>: white space removed at both ends.\<close>

definition trim :: "jstring \<Rightarrow> jstring" where
  "trim s = rev (dropWhile isSpace (rev (dropWhile isSpace s)))"

text \<open>
  \<open>loadPreset\<close> of \<open>src/App.tsx\<close>: the model name and the nine constants are set from the
  table. The key is typed as a key of \<open>PRESETS\<close>; for any other key the entry is
  \<open>undefined\<close> and reading its first constant throws (\<open>None\<close>).
\<close>

definition loadPreset :: "jstring \<Rightarrow> app_state \<Rightarrow> app_state option" where
  "loadPreset key st =
     (case map_of PRESETS key of
        None \<Rightarrow> None
      | Some np \<Rightarrow>
          Some (st\<lparr>modelKey := key, replay := replay np, cherry := cherry np, bell := bell np,
                   piero := piero np, bigAvg := bigAvg np, regAvg := regAvg np,
                   cherryPay := cherryPay np, bellPay := bellPay np,
                   pieroPay := pieroPay np\<rparr>))"

text \<open>
  \<open>loadPreset\<close> of the second file: the same, and then the four inputs are cleared.
\<close>

definition loadPreset_part000 :: "jstring \<Rightarrow> app_state \<Rightarrow> app_state option" where
  "loadPreset_part000 key st =
     (case map_of PRESETS_part000 key of
        None \<Rightarrow> None
      | Some np \<Rightarrow>
          Some (st\<lparr>modelKey := key, replay := replay np, cherry := cherry np, bell := bell np,
                   piero := piero np, bigAvg := bigAvg np, regAvg := regAvg np,
                   cherryPay := cherryPay np, bellPay := bellPay np,
                   pieroPay := pieroPay np,
                   G := JStr [], big := JStr [], reg := JStr [], diff := JStr []\<rparr>))"

text \<open>
  The test \<open>parsed.modelKey && PRESETS[parsed.modelKey]\<close>: the name is defined, not empty,
  and a key of the table. (The names of the properties that every object inherits are not
  keys of the table, the test only finds them there; \<open>parseFromText\<close> returns none of them.)
\<close>

definition knownModel :: "(jstring \<times> preset) list \<Rightarrow> parsed \<Rightarrow> bool" where
  "knownModel table p =
     (case p_modelKey p of None \<Rightarrow> False | Some key \<Rightarrow> key \<noteq> [] \<and> map_of table key \<noteq> None)"

text \<open>
  What \<open>parseFromText\<close> can return for the model name: nothing, or a key of the table.
\<close>

definition extractionResult :: "parsed \<Rightarrow> bool" where
  "extractionResult p =
     (case p_modelKey p of None \<Rightarrow> True | Some key \<Rightarrow> key \<in> set (map fst PRESETS))"

text \<open>
  The body of \<open>if (parsed)\<close> in \<open>handleImageFiles\<close> of \<open>src/App.tsx\<close>: the preset of a known
  model name is loaded, then every field that is not \<open>null\<close> or \<open>undefined\<close> is stored. The
  state setters take effect in the order of the calls.
\<close>

definition mergeParsed :: "parsed \<Rightarrow> app_state \<Rightarrow> app_state" where
  "mergeParsed p st =
     (let st1 = (if knownModel PRESETS p
                 then (case loadPreset (the (p_modelKey p)) st of Some s \<Rightarrow> s | None \<Rightarrow> st)
                 else st);
          st2 = (case p_G p of None \<Rightarrow> st1 | Some v \<Rightarrow> st1\<lparr>G := JNum v\<rparr>);
          st3 = (case p_big p of None \<Rightarrow> st2 | Some v \<Rightarrow> st2\<lparr>big := JNum v\<rparr>);
          st4 = (case p_reg p of None \<Rightarrow> st3 | Some v \<Rightarrow> st3\<lparr>reg := JNum v\<rparr>)
      in (case p_diff p of None \<Rightarrow> st4 | Some v \<Rightarrow> st4\<lparr>diff := JNum v\<rparr>))"

definition mergeParsed_part000 :: "parsed \<Rightarrow> app_state \<Rightarrow> app_state" where
  "mergeParsed_part000 p st =
     (let st1 = (if knownModel PRESETS_part000 p
                 then (case loadPreset_part000 (the (p_modelKey p)) st of
                         Some s \<Rightarrow> s | None \<Rightarrow> st)
                 else st);
          st2 = (case p_G p of None \<Rightarrow> st1 | Some v \<Rightarrow> st1\<lparr>G := JNum v\<rparr>);
          st3 = (case p_big p of None \<Rightarrow> st2 | Some v \<Rightarrow> st2\<lparr>big := JNum v\<rparr>);
          st4 = (case p_reg p of None \<Rightarrow> st3 | Some v \<Rightarrow> st3\<lparr>reg := JNum v\<rparr>)
      in (case p_diff p of None \<Rightarrow> st4 | Some v \<Rightarrow> st4\<lparr>diff := JNum v\<rparr>))"

text \<open>
  \<open>handleImageFiles\<close> from the text that the OCR engine returned for the first file: the text
  is trimmed and parsed, and a result that is not \<open>null\<close> is merged; otherwise only the log
  changes.
\<close>

definition handleImageFiles :: "jstring \<Rightarrow> app_state \<Rightarrow> app_state" where
  "handleImageFiles ocrText st =
     (case parseFromText (trim ocrText) of None \<Rightarrow> st | Some p \<Rightarrow> mergeParsed p st)"

definition handleImageFiles_part000 :: "jstring \<Rightarrow> app_state \<Rightarrow> app_state" where
  "handleImageFiles_part000 ocrText st =
     (case parseFromText_part000 (trim ocrText) of
        None \<Rightarrow> st
      | Some p \<Rightarrow> mergeParsed_part000 p st)"

section \<open>Notions used in the proofs\<close>




section \<open>Facts about the numbers\<close>














lemma isZero_isFinite: "isZero x \<Longrightarrow> isFinite x"
  by (cases x) simp_all























lemmas js_eval =
  jmul_def jdiv_def jadd_def jsub_def fin_def infinity_def Math_max_def jlt_def jgt_def jle_def

section \<open>The calculation engine: verification\<close>



lemma numberOr_fallback: "\<not> isFinite (parsedNumber v) \<Longrightarrow> numberOr v fb = fb"
  by (simp add: numberOr_def Let_def)

lemma numberOr_JNum: "numberOr (JNum (Fin r)) fb = Fin r"
  by (simp add: numberOr_def parsedNumber_def)


lemma parsedNumber_abc: "parsedNumber (JStr (asc ''abc'')) = NaN"
  by (simp add: parsedNumber_def parseFloat_def asc_def isSpace_def isDigit_def)


text \<open>The engine is the specification's formula applied to the four coerced inputs.\<close>

lemma calc_reconcile:
  "calcResultByCapture st cap =
     reconcile_spec (numberOr (G st) (Fin 0)) (numberOr (big st) (Fin 0))
       (numberOr (reg st) (Fin 0)) (numberOr (diff st) (Fin 0)) st cap"
  by (simp add: calcResultByCapture_def reconcile_spec_def coinIn_spec_def outKnown_spec_def
      symbolOut_spec_def Let_def)

lemmas spec_eval = reconcile_spec_def coinIn_spec_def outKnown_spec_def symbolOut_spec_def


lemma initial_preset:
  "preset.truncate initialState = snd (hd PRESETS) \<and> modelKey initialState = fst (hd PRESETS)"
  by (simp add: initialState_def PRESETS_def preset.defs)

lemma tables_ok:
  "\<forall>(key, np)\<in>set PRESETS. presetOK np" "\<forall>(key, cap)\<in>set STRATEGIES. captureOK cap"
  by (simp_all add: PRESETS_def STRATEGIES_def presetOK_def captureOK_def)

subsection \<open>C1: the balance equation\<close>




subsection \<open>C2: zero spins\<close>










subsection \<open>C5: monotone in the net difference\<close>






subsection \<open>C7: malformed input counts as zero\<close>

text \<open>
  Claim C7. A field value that fails to parse as a finite number is treated as 0, and no
  error is raised (the engine is a total function): for every state and strategy, the
  result with such a value in any of the four fields is the result with 0 in that field.
\<close>

theorem malformed_field_is_zero:
  assumes "\<not> isFinite (parsedNumber v)"
  shows "calcResultByCapture (st\<lparr>G := v\<rparr>) cap =
           calcResultByCapture (st\<lparr>G := JNum (Fin 0)\<rparr>) cap \<and>
         calcResultByCapture (st\<lparr>big := v\<rparr>) cap =
           calcResultByCapture (st\<lparr>big := JNum (Fin 0)\<rparr>) cap \<and>
         calcResultByCapture (st\<lparr>reg := v\<rparr>) cap =
           calcResultByCapture (st\<lparr>reg := JNum (Fin 0)\<rparr>) cap \<and>
         calcResultByCapture (st\<lparr>diff := v\<rparr>) cap =
           calcResultByCapture (st\<lparr>diff := JNum (Fin 0)\<rparr>) cap"
proof -
  have "numberOr v (Fin 0) = numberOr (JNum (Fin 0)) (Fin 0)"
    using assms by (simp add: numberOr_fallback numberOr_JNum)
  then show ?thesis
    by (simp add: calcResultByCapture_def)
qed

theorem malformed_field_is_zero_witness:
  "\<not> isFinite (parsedNumber (JStr (asc ''abc''))) \<and>
   calcResultByCapture (initialState\<lparr>big := JStr (asc ''abc'')\<rparr>)
       \<lparr>cap_cherry = Fin 1, cap_bell = Fin 0, cap_piero = Fin 0\<rparr> =
     calcResultByCapture (initialState\<lparr>big := JNum (Fin 0)\<rparr>)
       \<lparr>cap_cherry = Fin 1, cap_bell = Fin 0, cap_piero = Fin 0\<rparr>"
proof -
  have h: "\<not> isFinite (parsedNumber (JStr (asc ''abc'')))"
    by (simp add: parsedNumber_abc)
  from malformed_field_is_zero [OF h] h show ?thesis
    by blast
qed

subsection \<open>C8: totality and the range of the result\<close>




section \<open>The extraction pipeline: verification\<close>

subsection \<open>C9: the normalization is idempotent\<close>
























lemmas norm_eval =
  normalizeText_def asc_def toLowerCase_def lowerUnit_def replaceUnit_def stripCommas_def
  halfwidthDigits_def isSeparator_def


subsection \<open>The matcher\<close>

lemma repeatClass_sound:
  "repeatClass P lo hi xs c k = Some r \<Longrightarrow>
   \<exists>n. n \<le> length xs \<and> lo \<le> n \<and> (\<forall>h. hi = Some h \<longrightarrow> n \<le> h) \<and>
       (\<forall>x\<in>set (take n xs). P x) \<and> k (drop n xs) c = Some r"
proof (induction xs arbitrary: lo hi)
  case Nil
  then have "lo = 0 \<and> k [] c = Some r"
    by (simp split: if_splits)
  then show ?case by simp
next
  case (Cons x xs)
  show ?case
  proof (cases "hi = Some 0 \<or> \<not> P x")
    case True
    with Cons.prems have "lo = 0 \<and> k (x # xs) c = Some r"
      by (simp split: if_splits)
    then show ?thesis
      by (intro exI [of _ 0]) simp
  next
    case False
    show ?thesis
    proof (cases "repeatClass P (lo - 1) (map_option (\<lambda>h. h - 1) hi) xs c k")
      case None
      with False Cons.prems have "lo = 0 \<and> k (x # xs) c = Some r"
        by (simp split: if_splits)
      then show ?thesis
        by (intro exI [of _ 0]) simp
    next
      case (Some r')
      with False Cons.prems have "r' = r" by simp
      with Some Cons.IH [of "lo - 1" "map_option (\<lambda>h. h - 1) hi"]
      obtain n where n: "n \<le> length xs" "lo - 1 \<le> n"
        "\<forall>h. map_option (\<lambda>h. h - 1) hi = Some h \<longrightarrow> n \<le> h"
        "\<forall>x\<in>set (take n xs). P x" "k (drop n xs) c = Some r"
        by blast
      have "\<forall>h. hi = Some h \<longrightarrow> Suc n \<le> h"
      proof (intro allI impI)
        fix h assume h: "hi = Some h"
        with False have "h \<noteq> 0" by simp
        moreover from h n(3) have "n \<le> h - 1" by simp
        ultimately show "Suc n \<le> h" by simp
      qed
      with n False show ?thesis
        by (intro exI [of _ "Suc n"]) auto
    qed
  qed
qed

lemma search_sound:
  "search r xs = Some m \<Longrightarrow>
   \<exists>pre suf. xs = pre @ suf \<and> matchAt r suf Map.empty (\<lambda>ys c. Some c) = Some m"
proof (induction xs)
  case Nil
  then show ?case by simp
next
  case (Cons x xs)
  show ?case
  proof (cases "matchAt r (x # xs) Map.empty (\<lambda>ys c. Some c)")
    case None
    with Cons.prems have "search r xs = Some m" by simp
    with Cons.IH obtain pre suf where
      "xs = pre @ suf" "matchAt r suf Map.empty (\<lambda>ys c. Some c) = Some m"
      by blast
    then show ?thesis
      by (intro exI [of _ "x # pre"] exI [of _ suf]) simp
  next
    case (Some m')
    with Cons.prems have "m' = m" by simp
    with Some show ?thesis
      by (intro exI [of _ "[]"] exI [of _ "x # xs"]) simp
  qed
qed

lemma seq_group_rep:
  assumes "matchAt (Seq (Group n (Rep P lo hi)) R) xs c k = Some m"
  shows "\<exists>j. j \<le> length xs \<and> lo \<le> j \<and> (\<forall>h. hi = Some h \<longrightarrow> j \<le> h) \<and>
           (\<forall>x\<in>set (take j xs). P x) \<and>
           matchAt R (drop j xs) (c(n \<mapsto> take j xs)) k = Some m"
proof -
  from assms have "repeatClass P lo hi xs c
      (\<lambda>ys c'. matchAt R ys (c'(n \<mapsto> take (length xs - length ys) xs)) k) = Some m"
    by simp
  from repeatClass_sound [OF this] obtain j where j: "j \<le> length xs" "lo \<le> j"
    "\<forall>h. hi = Some h \<longrightarrow> j \<le> h" "\<forall>x\<in>set (take j xs). P x"
    "matchAt R (drop j xs) (c(n \<mapsto> take (length xs - length (drop j xs)) xs)) k = Some m"
    by blast
  from j(1) have "length xs - length (drop j xs) = j" by simp
  with j show ?thesis by auto
qed

lemma seq_rep:
  assumes "matchAt (Seq (Rep P lo hi) R) xs c k = Some m"
  shows "\<exists>j. j \<le> length xs \<and> lo \<le> j \<and> (\<forall>h. hi = Some h \<longrightarrow> j \<le> h) \<and>
           (\<forall>x\<in>set (take j xs). P x) \<and> matchAt R (drop j xs) c k = Some m"
proof -
  from assms have "repeatClass P lo hi xs c (\<lambda>ys c'. matchAt R ys c' k) = Some m"
    by simp
  from repeatClass_sound [OF this] show ?thesis .
qed

lemma seq_str:
  "matchAt (Seq (Str s) R) xs c k = Some m \<Longrightarrow>
   take (length s) xs = s \<and> matchAt R (drop (length s) xs) c k = Some m"
  by (simp split: if_splits)

lemma notAhead_str:
  "matchAt (NotAhead (Str s)) xs c k = Some m \<Longrightarrow> take (length s) xs \<noteq> s \<and> k xs c = Some m"
  by (simp split: if_splits option.splits)

lemma gBare_match:
  assumes "matchAt gBare suf Map.empty (\<lambda>ys c. Some c) = Some m"
  shows "\<exists>ds ws post. suf = ds @ ws @ [0x67] @ post \<and> 3 \<le> length ds \<and> length ds \<le> 6 \<and>
           (\<forall>d\<in>set ds. isDigit d) \<and> (\<forall>w\<in>set ws. isSpace w) \<and> take 1 post \<noteq> [0x2F] \<and>
           m 1 = Some ds \<and> m 2 = None"
proof -
  from assms have "matchAt (Seq (Group 1 (Rep isDigit 3 (Some 6)))
      (Seq (Rep isSpace 0 None) (Seq (Str [0x67]) (NotAhead (Str [0x2F])))))
      suf Map.empty (\<lambda>ys c. Some c) = Some m"
    by (simp only: gBare_def seqs.simps)
  from seq_group_rep [OF this] obtain n1 where n1: "n1 \<le> length suf" "3 \<le> n1" "n1 \<le> 6"
    "\<forall>x\<in>set (take n1 suf). isDigit x"
    "matchAt (Seq (Rep isSpace 0 None) (Seq (Str [0x67]) (NotAhead (Str [0x2F]))))
       (drop n1 suf) (Map.empty(1 \<mapsto> take n1 suf)) (\<lambda>ys c. Some c) = Some m"
    by auto
  from seq_rep [OF n1(5)] obtain n2 where n2: "n2 \<le> length (drop n1 suf)"
    "\<forall>x\<in>set (take n2 (drop n1 suf)). isSpace x"
    "matchAt (Seq (Str [0x67]) (NotAhead (Str [0x2F])))
       (drop n2 (drop n1 suf)) (Map.empty(1 \<mapsto> take n1 suf)) (\<lambda>ys c. Some c) = Some m"
    by auto
  define ds where "ds = take n1 suf"
  define ws where "ws = take n2 (drop n1 suf)"
  define zs where "zs = drop n2 (drop n1 suf)"
  from seq_str [OF n2(3)] have g: "take 1 zs = [0x67]"
    and r: "matchAt (NotAhead (Str [0x2F])) (drop 1 zs) (Map.empty(1 \<mapsto> ds))
              (\<lambda>ys c. Some c) = Some m"
    by (simp_all add: zs_def ds_def)
  from notAhead_str [OF r] have s: "take 1 (drop 1 zs) \<noteq> [0x2F]"
    and m: "m = Map.empty(1 \<mapsto> ds)"
    by simp_all
  from g have zs: "zs = [0x67] @ drop 1 zs"
    by (cases zs) simp_all
  have "ws @ zs = drop n1 suf"
    unfolding ws_def zs_def by (rule append_take_drop_id)
  then have "suf = ds @ ws @ zs"
    unfolding ds_def by simp
  with zs have "suf = ds @ ws @ [0x67] @ drop 1 zs" by simp
  moreover from n1 have "3 \<le> length ds" "length ds \<le> 6" "\<forall>d\<in>set ds. isDigit d"
    by (simp_all add: ds_def)
  moreover from n2(2) have "\<forall>w\<in>set ws. isSpace w"
    by (simp add: ws_def)
  moreover from m have "m 1 = Some ds" "m 2 = None" by simp_all
  ultimately show ?thesis using s by blast
qed

lemma repeatClass_complete:
  assumes "n \<le> length xs" "lo \<le> n" "\<forall>h. hi = Some h \<longrightarrow> n \<le> h"
    "\<forall>x\<in>set (take n xs). P x" "k (drop n xs) c \<noteq> None"
  shows "repeatClass P lo hi xs c k \<noteq> None"
  using assms
proof (induction xs arbitrary: n lo hi)
  case Nil
  then show ?case by simp
next
  case (Cons x xs)
  show ?case
  proof (cases n)
    case 0
    with Cons.prems have "lo = 0" "k (x # xs) c \<noteq> None"
      by simp_all
    then show ?thesis
      by (simp split: option.splits)
  next
    case (Suc m)
    with Cons.prems have px: "P x" and hi: "hi \<noteq> Some 0"
      by auto
    have "repeatClass P (lo - 1) (map_option (\<lambda>h. h - 1) hi) xs c k \<noteq> None"
    proof (rule Cons.IH [of m])
      show "m \<le> length xs" using Cons.prems(1) Suc by simp
      show "lo - 1 \<le> m" using Cons.prems(2) Suc by simp
      show "\<forall>h. map_option (\<lambda>h. h - 1) hi = Some h \<longrightarrow> m \<le> h"
        using Cons.prems(3) Suc by auto
      show "\<forall>x\<in>set (take m xs). P x" using Cons.prems(4) Suc by simp
      show "k (drop m xs) c \<noteq> None" using Cons.prems(5) Suc by simp
    qed
    with px hi show ?thesis
      by (auto split: option.splits)
  qed
qed

lemma search_complete:
  "matchAt r suf Map.empty (\<lambda>ys c. Some c) \<noteq> None \<Longrightarrow> search r (pre @ suf) \<noteq> None"
proof (induction pre)
  case Nil
  then show ?case
    by (cases suf) (auto split: option.splits)
next
  case (Cons p ps)
  then show ?case
    by (auto split: option.splits)
qed

lemma gBare_complete:
  assumes "3 \<le> length ds" "length ds \<le> 6" "\<forall>d\<in>set ds. isDigit d" "\<forall>w\<in>set ws. isSpace w"
    "take 1 post \<noteq> [0x2F]"
  shows "matchAt gBare (ds @ ws @ [0x67] @ post) Map.empty (\<lambda>ys c. Some c) \<noteq> None"
proof -
  let ?K = "\<lambda>(ys :: jstring) (c :: captures). Some c"
  let ?R2 = "Seq (Str [0x67]) (NotAhead (Str [0x2F]))"
  let ?R1 = "Seq (Rep isSpace 0 None) ?R2"
  let ?suf = "ds @ ws @ [0x67] @ post"
  have k2: "matchAt ?R2 ([0x67] @ post) c ?K \<noteq> None" for c
    using assms(5) by simp
  have k1: "matchAt ?R1 (ws @ [0x67] @ post) c ?K \<noteq> None" for c
  proof -
    have "repeatClass isSpace 0 None (ws @ [0x67] @ post) c (\<lambda>ys c'. matchAt ?R2 ys c' ?K) \<noteq> None"
    proof (rule repeatClass_complete [of "length ws"])
      show "matchAt ?R2 (drop (length ws) (ws @ [0x67] @ post)) c ?K \<noteq> None"
        using k2 [of c] by simp
    qed (use assms(4) in simp_all)
    then show ?thesis by simp
  qed
  have "repeatClass isDigit 3 (Some 6) ?suf Map.empty
      (\<lambda>ys c'. matchAt ?R1 ys (c'(1 \<mapsto> take (length ?suf - length ys) ?suf)) ?K) \<noteq> None"
  proof (rule repeatClass_complete [of "length ds"])
    show "matchAt ?R1 (drop (length ds) ?suf)
        (Map.empty(1 \<mapsto> take (length ?suf - length (drop (length ds) ?suf)) ?suf)) ?K \<noteq> None"
      using k1 by simp
  qed (use assms(1-3) in simp_all)
  then have "matchAt (Seq (Group 1 (Rep isDigit 3 (Some 6))) ?R1) ?suf Map.empty ?K \<noteq> None"
    by simp
  then show ?thesis
    unfolding gBare_def seqs.simps .
qed

lemma bareSpinRun_found:
  assumes "bareSpinRun t ds"
  shows "search gBare t \<noteq> None"
proof -
  from assms obtain pre ws post where t: "t = pre @ ds @ ws @ [0x67] @ post"
    and c: "3 \<le> length ds" "length ds \<le> 6" "\<forall>d\<in>set ds. isDigit d" "\<forall>w\<in>set ws. isSpace w"
      "take 1 post \<noteq> [0x2F]"
    unfolding bareSpinRun_def by blast
  from gBare_complete [OF c] show ?thesis
    unfolding t by (rule search_complete)
qed

lemma search_gBare_run:
  assumes "search gBare t = Some m"
  shows "\<exists>ds. bareSpinRun t ds \<and> m 1 = Some ds \<and> m 2 = None"
proof -
  from search_sound [OF assms] obtain pre suf where t: "t = pre @ suf"
    and "matchAt gBare suf Map.empty (\<lambda>ys c. Some c) = Some m"
    by blast
  from gBare_match [OF this(2)] obtain ds ws post where
    d: "suf = ds @ ws @ [0x67] @ post" "3 \<le> length ds" "length ds \<le> 6"
    "\<forall>d\<in>set ds. isDigit d" "\<forall>w\<in>set ws. isSpace w" "take 1 post \<noteq> [0x2F]"
    "m 1 = Some ds" "m 2 = None"
    by blast
  from t d(1-6) have "bareSpinRun t ds"
    unfolding bareSpinRun_def by blast
  with d(7,8) show ?thesis by blast
qed

lemma empty_text: "normalizeText [] = []"
  by (simp add: norm_eval)

lemma firstMatch_None: "firstMatch rs t = None \<longleftrightarrow> \<not> fieldPresent rs t"
  by (induction rs) (auto simp: fieldPresent_def split: option.splits)

lemma findG_present: "findG t \<noteq> None \<longleftrightarrow> fieldPresent gPatterns t"
  by (simp add: findG_def firstMatch_None)

lemma findBig_present: "findBig t \<noteq> None \<longleftrightarrow> fieldPresent bbPatterns t"
  by (simp add: findBig_def firstMatch_None)

lemma findReg_present: "findReg t \<noteq> None \<longleftrightarrow> fieldPresent rbPatterns t"
  by (simp add: findReg_def firstMatch_None)

lemma findDiff_present: "findDiff t \<noteq> None \<longleftrightarrow> fieldPresent diffPatterns t"
  by (simp add: findDiff_def firstMatch_None)

lemma parseFromText_Some:
  assumes "parseFromText raw = Some p"
  shows "raw \<noteq> [] \<and>
         p = \<lparr>p_modelKey = findModelKey (map fst PRESETS) (normalizeText raw),
              p_G = findG (normalizeText raw), p_big = findBig (normalizeText raw),
              p_reg = findReg (normalizeText raw), p_diff = findDiff (normalizeText raw)\<rparr>"
  using assms by (auto simp: parseFromText_def Let_def split: if_splits)

lemmas match_eval =
  gPatterns_def gLabeled_def gBare_def bbPatterns_def rbPatterns_def diffPatterns_def asc_def
  isDigit_def isSpace_def isColon_def isSign_def

lemmas key_eval = PRESETS_def toLowerCase_def lowerUnit_def stripSpaces_def isSpace_def

lemmas int_eval = parseIntGroup_def orElse_def parseInt_def isSpace_def isDigit_def
  digitsValue_def fin_def

subsection \<open>C3: the spin-count fallback\<close>

text \<open>
  Claim C3, corrected. The claim says that the fallback pattern never takes the
  denominator of a ratio such as \<open>1/150G\<close> for the spin count. The pattern looks ahead only:
  the letter \<open>g\<close> must not be followed by a slash; nothing is asked of what stands before the
  digits. What holds, for every text without a labelled spin count: the spin count is set
  exactly when the normalized text holds a run of 3 to 6 digits, then white space or
  nothing, then \<open>g\<close>, and no slash right after that \<open>g\<close>; and it is set to the number that
  such a run spells. For \<open>1/150G\<close> the text after the slash is such a run, and the spin
  count is set to 150.
\<close>

theorem fallback_spin_count:
  assumes "search gLabeled (normalizeText raw) = None"
  shows "(\<forall>p v. parseFromText raw = Some p \<and> p_G p = Some v \<longrightarrow>
            (\<exists>ds. bareSpinRun (normalizeText raw) ds \<and> v = parseInt ds)) \<and>
         ((\<exists>ds. bareSpinRun (normalizeText raw) ds) \<longrightarrow>
            (\<exists>p v. parseFromText raw = Some p \<and> p_G p = Some v))"
proof (intro conjI allI impI)
  let ?t = "normalizeText raw"
  have fm: "firstMatch gPatterns ?t = search gBare ?t"
    using assms by (simp add: gPatterns_def split: option.splits)
  {
    fix p v assume a: "parseFromText raw = Some p \<and> p_G p = Some v"
    with parseFromText_Some [of raw p] have "findG ?t = Some v"
      by simp
    then obtain m where m: "search gBare ?t = Some m"
      and v: "v = parseIntGroup (orElse (m 2) (m 1))"
      unfolding findG_def fm by auto
    from search_gBare_run [OF m] obtain ds where
      d: "bareSpinRun ?t ds" "m 1 = Some ds" "m 2 = None"
      by blast
    from d(1) have "ds \<noteq> []"
      unfolding bareSpinRun_def by auto
    with v d(2,3) have "v = parseInt ds"
      by (simp add: orElse_def parseIntGroup_def)
    with d(1) show "\<exists>ds. bareSpinRun ?t ds \<and> v = parseInt ds"
      by blast
  }
  {
    assume "\<exists>ds. bareSpinRun ?t ds"
    then obtain ds where d: "bareSpinRun ?t ds" ..
    then have "search gBare ?t \<noteq> None"
      by (rule bareSpinRun_found)
    then obtain v where g: "findG ?t = Some v"
      unfolding findG_def fm by auto
    from d have "?t \<noteq> []"
      unfolding bareSpinRun_def by auto
    then have "raw \<noteq> []"
      using empty_text by auto
    with g show "\<exists>p v. parseFromText raw = Some p \<and> p_G p = Some v"
      by (simp add: parseFromText_def Let_def)
  }
qed

lemma ratio_text: "normalizeText (asc ''1/150G'') = [0x31, 0x2F, 0x31, 0x35, 0x30, 0x67]"
  by (simp add: norm_eval)

lemma ratio_fields:
  "search gLabeled [0x31, 0x2F, 0x31, 0x35, 0x30, 0x67] = None"
  "findG [0x31, 0x2F, 0x31, 0x35, 0x30, 0x67] = Some (Fin 150)"
  "findBig [0x31, 0x2F, 0x31, 0x35, 0x30, 0x67] = None"
  "findReg [0x31, 0x2F, 0x31, 0x35, 0x30, 0x67] = None"
  "findDiff [0x31, 0x2F, 0x31, 0x35, 0x30, 0x67] = None"
  "findModelKey (map fst PRESETS) [0x31, 0x2F, 0x31, 0x35, 0x30, 0x67] = None"
  by (simp_all add: findG_def findBig_def findReg_def findDiff_def match_eval int_eval key_eval)

theorem fallback_spin_count_counterexample:
  "search gLabeled (normalizeText (asc ''1/150G'')) = None \<and>
   parseFromText (asc ''1/150G'') =
     Some \<lparr>p_modelKey = None, p_G = Some (Fin 150), p_big = None, p_reg = None, p_diff = None\<rparr>"
proof -
  have a: "search gLabeled (normalizeText (asc ''1/150G'')) = None"
    by (simp only: ratio_text ratio_fields)
  have "asc ''1/150G'' \<noteq> []"
    by (simp add: asc_def)
  then have "parseFromText (asc ''1/150G'') =
     Some \<lparr>p_modelKey = None, p_G = Some (Fin 150), p_big = None, p_reg = None, p_diff = None\<rparr>"
    by (simp add: parseFromText_def ratio_text ratio_fields(2-6))
  with a show ?thesis ..
qed

lemma slash_after_text: "normalizeText (asc ''150G/'') = [0x31, 0x35, 0x30, 0x67, 0x2F]"
  by (simp add: norm_eval)

lemma slash_after_null: "parseFromText (asc ''150G/'') = None"
proof -
  have "findG [0x31, 0x35, 0x30, 0x67, 0x2F] = None"
    "findBig [0x31, 0x35, 0x30, 0x67, 0x2F] = None"
    "findReg [0x31, 0x35, 0x30, 0x67, 0x2F] = None"
    "findDiff [0x31, 0x35, 0x30, 0x67, 0x2F] = None"
    by (simp_all add: findG_def findBig_def findReg_def findDiff_def match_eval)
  then show ?thesis
    by (simp add: parseFromText_def slash_after_text)
qed

lemma spaced_text: "normalizeText (asc ''3200 G'') = [0x33, 0x32, 0x30, 0x30, 0x20, 0x67]"
  by (simp add: norm_eval)

lemma spaced_fields:
  "search gLabeled [0x33, 0x32, 0x30, 0x30, 0x20, 0x67] = None"
  "findG [0x33, 0x32, 0x30, 0x30, 0x20, 0x67] = Some (Fin 3200)"
  "findBig [0x33, 0x32, 0x30, 0x30, 0x20, 0x67] = None"
  "findReg [0x33, 0x32, 0x30, 0x30, 0x20, 0x67] = None"
  "findDiff [0x33, 0x32, 0x30, 0x30, 0x20, 0x67] = None"
  "findModelKey (map fst PRESETS) [0x33, 0x32, 0x30, 0x30, 0x20, 0x67] = None"
  by (simp_all add: findG_def findBig_def findReg_def findDiff_def match_eval int_eval key_eval)

lemma spaced_run: "bareSpinRun [0x33, 0x32, 0x30, 0x30, 0x20, 0x67] [0x33, 0x32, 0x30, 0x30]"
  unfolding bareSpinRun_def
  by (intro exI [of _ "[]"] exI [of _ "[0x20]"]) (simp add: isDigit_def isSpace_def)

theorem fallback_spin_count_witness:
  "search gLabeled (normalizeText (asc ''3200 G'')) = None \<and>
   bareSpinRun (normalizeText (asc ''3200 G'')) [0x33, 0x32, 0x30, 0x30] \<and>
   (\<exists>p v. parseFromText (asc ''3200 G'') = Some p \<and> p_G p = Some v) \<and>
   parseFromText (asc ''3200 G'') =
     Some \<lparr>p_modelKey = None, p_G = Some (Fin 3200), p_big = None, p_reg = None, p_diff = None\<rparr>"
proof -
  have a: "search gLabeled (normalizeText (asc ''3200 G'')) = None"
    by (simp only: spaced_text spaced_fields)
  have r: "bareSpinRun (normalizeText (asc ''3200 G'')) [0x33, 0x32, 0x30, 0x30]"
    unfolding spaced_text by (rule spaced_run)
  have "asc ''3200 G'' \<noteq> []"
    by (simp add: asc_def)
  then have b: "parseFromText (asc ''3200 G'') =
     Some \<lparr>p_modelKey = None, p_G = Some (Fin 3200), p_big = None, p_reg = None, p_diff = None\<rparr>"
    by (simp add: parseFromText_def spaced_text spaced_fields(2-6))
  from fallback_spin_count [OF a] r
  have "\<exists>p v. parseFromText (asc ''3200 G'') = Some p \<and> p_G p = Some v"
    by blast
  with a r b show ?thesis
    by blast
qed

subsection \<open>C6: the null result\<close>

lemma empty_no_field:
  "\<not> fieldPresent gPatterns []" "\<not> fieldPresent bbPatterns []"
  "\<not> fieldPresent rbPatterns []" "\<not> fieldPresent diffPatterns []"
  by (simp_all add: fieldPresent_def match_eval)

text \<open>
  Claim C6. \<open>parseFromText\<close> returns \<open>null\<close> if and only if all four numeric fields
  (spins, the two jackpot counts, the net difference) are absent from the text; the model
  name does not enter this test, so a matched model name alone gives \<open>null\<close>; and if at
  least one numeric field matches, the record returned has exactly the matched fields.
\<close>

theorem parse_null_iff:
  "(parseFromText raw = None \<longleftrightarrow>
      \<not> fieldPresent gPatterns (normalizeText raw) \<and>
      \<not> fieldPresent bbPatterns (normalizeText raw) \<and>
      \<not> fieldPresent rbPatterns (normalizeText raw) \<and>
      \<not> fieldPresent diffPatterns (normalizeText raw)) \<and>
   (\<forall>p. parseFromText raw = Some p \<longrightarrow>
      (p_G p \<noteq> None \<longleftrightarrow> fieldPresent gPatterns (normalizeText raw)) \<and>
      (p_big p \<noteq> None \<longleftrightarrow> fieldPresent bbPatterns (normalizeText raw)) \<and>
      (p_reg p \<noteq> None \<longleftrightarrow> fieldPresent rbPatterns (normalizeText raw)) \<and>
      (p_diff p \<noteq> None \<longleftrightarrow> fieldPresent diffPatterns (normalizeText raw)) \<and>
      p = \<lparr>p_modelKey = findModelKey (map fst PRESETS) (normalizeText raw),
           p_G = findG (normalizeText raw), p_big = findBig (normalizeText raw),
           p_reg = findReg (normalizeText raw), p_diff = findDiff (normalizeText raw)\<rparr>)"
proof (intro conjI allI impI)
  show "parseFromText raw = None \<longleftrightarrow>
      \<not> fieldPresent gPatterns (normalizeText raw) \<and>
      \<not> fieldPresent bbPatterns (normalizeText raw) \<and>
      \<not> fieldPresent rbPatterns (normalizeText raw) \<and>
      \<not> fieldPresent diffPatterns (normalizeText raw)"
  proof (cases "raw = []")
    case True
    then show ?thesis
      by (simp add: parseFromText_def empty_text empty_no_field)
  next
    case False
    then show ?thesis
      using findG_present [of "normalizeText raw"] findBig_present [of "normalizeText raw"]
        findReg_present [of "normalizeText raw"] findDiff_present [of "normalizeText raw"]
      by (auto simp: parseFromText_def Let_def)
  qed
next
  fix p assume p: "parseFromText raw = Some p"
  note e = parseFromText_Some [OF p]
  from e show "p = \<lparr>p_modelKey = findModelKey (map fst PRESETS) (normalizeText raw),
           p_G = findG (normalizeText raw), p_big = findBig (normalizeText raw),
           p_reg = findReg (normalizeText raw), p_diff = findDiff (normalizeText raw)\<rparr>"
    by simp
  from e have f: "p_G p = findG (normalizeText raw)" "p_big p = findBig (normalizeText raw)"
    "p_reg p = findReg (normalizeText raw)" "p_diff p = findDiff (normalizeText raw)"
    by simp_all
  show "p_G p \<noteq> None \<longleftrightarrow> fieldPresent gPatterns (normalizeText raw)"
    unfolding f by (rule findG_present)
  show "p_big p \<noteq> None \<longleftrightarrow> fieldPresent bbPatterns (normalizeText raw)"
    unfolding f by (rule findBig_present)
  show "p_reg p \<noteq> None \<longleftrightarrow> fieldPresent rbPatterns (normalizeText raw)"
    unfolding f by (rule findReg_present)
  show "p_diff p \<noteq> None \<longleftrightarrow> fieldPresent diffPatterns (normalizeText raw)"
    unfolding f by (rule findDiff_present)
qed

text \<open>The first model name alone, and the text \<open>BIG 12\<close>.\<close>

lemma name_text:
  "normalizeText [0x30DE, 0x30A4, 0x30B8, 0x30E3, 0x30B0, 0x30E9, 0x30FC, 0x0056] =
     [0x30DE, 0x30A4, 0x30B8, 0x30E3, 0x30B0, 0x30E9, 0x30FC, 0x0076]"
  by (simp add: norm_eval)

lemma name_fields:
  "\<not> fieldPresent gPatterns [0x30DE, 0x30A4, 0x30B8, 0x30E3, 0x30B0, 0x30E9, 0x30FC, 0x0076]"
  "\<not> fieldPresent bbPatterns [0x30DE, 0x30A4, 0x30B8, 0x30E3, 0x30B0, 0x30E9, 0x30FC, 0x0076]"
  "\<not> fieldPresent rbPatterns [0x30DE, 0x30A4, 0x30B8, 0x30E3, 0x30B0, 0x30E9, 0x30FC, 0x0076]"
  "\<not> fieldPresent diffPatterns [0x30DE, 0x30A4, 0x30B8, 0x30E3, 0x30B0, 0x30E9, 0x30FC, 0x0076]"
  by (simp_all add: fieldPresent_def match_eval)

lemma name_key:
  "findModelKey (map fst PRESETS) [0x30DE, 0x30A4, 0x30B8, 0x30E3, 0x30B0, 0x30E9, 0x30FC, 0x0076] =
     Some [0x30DE, 0x30A4, 0x30B8, 0x30E3, 0x30B0, 0x30E9, 0x30FC, 0x0056]"
  by (simp add: key_eval)

lemma big12_text: "normalizeText (asc ''BIG 12'') = [0x62, 0x69, 0x67, 0x20, 0x31, 0x32]"
  by (simp add: norm_eval)

lemma big12_fields:
  "findG [0x62, 0x69, 0x67, 0x20, 0x31, 0x32] = None"
  "findBig [0x62, 0x69, 0x67, 0x20, 0x31, 0x32] = Some (Fin 12)"
  "findReg [0x62, 0x69, 0x67, 0x20, 0x31, 0x32] = None"
  "findDiff [0x62, 0x69, 0x67, 0x20, 0x31, 0x32] = None"
  "findModelKey (map fst PRESETS) [0x62, 0x69, 0x67, 0x20, 0x31, 0x32] = None"
  by (simp_all add: findG_def findBig_def findReg_def findDiff_def match_eval int_eval key_eval)

lemma big12_parsed:
  "parseFromText (asc ''BIG 12'') =
     Some \<lparr>p_modelKey = None, p_G = None, p_big = Some (Fin 12), p_reg = None, p_diff = None\<rparr>"
proof -
  have "asc ''BIG 12'' \<noteq> []"
    by (simp add: asc_def)
  then show ?thesis
    by (simp add: parseFromText_def big12_text big12_fields)
qed

theorem parse_null_iff_witness:
  "findModelKey (map fst PRESETS)
     (normalizeText [0x30DE, 0x30A4, 0x30B8, 0x30E3, 0x30B0, 0x30E9, 0x30FC, 0x0056]) =
     Some [0x30DE, 0x30A4, 0x30B8, 0x30E3, 0x30B0, 0x30E9, 0x30FC, 0x0056] \<and>
   parseFromText [0x30DE, 0x30A4, 0x30B8, 0x30E3, 0x30B0, 0x30E9, 0x30FC, 0x0056] = None \<and>
   parseFromText (asc ''BIG 12'') =
     Some \<lparr>p_modelKey = None, p_G = None, p_big = Some (Fin 12), p_reg = None, p_diff = None\<rparr> \<and>
   fieldPresent bbPatterns (normalizeText (asc ''BIG 12'')) \<and>
   \<not> fieldPresent gPatterns (normalizeText (asc ''BIG 12''))"
proof -
  let ?name = "[0x30DE, 0x30A4, 0x30B8, 0x30E3, 0x30B0, 0x30E9, 0x30FC, 0x0056]"
  have k: "findModelKey (map fst PRESETS) (normalizeText ?name) = Some ?name"
    by (simp only: name_text name_key)
  have "\<not> fieldPresent gPatterns (normalizeText ?name) \<and>
      \<not> fieldPresent bbPatterns (normalizeText ?name) \<and>
      \<not> fieldPresent rbPatterns (normalizeText ?name) \<and>
      \<not> fieldPresent diffPatterns (normalizeText ?name)"
    by (simp only: name_text name_fields simp_thms)
  with parse_null_iff [of ?name] have n: "parseFromText ?name = None"
    by blast
  from parse_null_iff [of "asc ''BIG 12''"] big12_parsed
  have "fieldPresent bbPatterns (normalizeText (asc ''BIG 12'')) \<and>
      \<not> fieldPresent gPatterns (normalizeText (asc ''BIG 12''))"
    by auto
  with k n big12_parsed show ?thesis
    by blast
qed

section \<open>The two variants agree\<close>

subsection \<open>C10: the same engine and the same extraction\<close>

lemma tables_same: "PRESETS_part000 = PRESETS" "STRATEGIES_part000 = STRATEGIES"
  by (simp_all add: PRESETS_part000_def PRESETS_def STRATEGIES_part000_def STRATEGIES_def)

lemma numberOr_same: "numberOr_part000 v fb = numberOr v fb"
  by (simp add: numberOr_part000_def numberOr_def parsedNumber_part000_def parsedNumber_def)

lemma calc_same: "calcResultByCapture_part000 st cap = calcResultByCapture st cap"
  by (simp add: calcResultByCapture_part000_def calcResultByCapture_def numberOr_same)

lemma normalizeText_same: "normalizeText_part000 raw = normalizeText raw"
  by (simp add: normalizeText_part000_def normalizeText_def)

lemma patterns_same:
  "gPatterns_part000 = gPatterns" "bbPatterns_part000 = bbPatterns"
  "rbPatterns_part000 = rbPatterns" "diffPatterns_part000 = diffPatterns"
  by (simp_all add: gPatterns_part000_def gPatterns_def gLabeled_part000_def gLabeled_def
      gBare_part000_def gBare_def bbPatterns_part000_def bbPatterns_def rbPatterns_part000_def
      rbPatterns_def diffPatterns_part000_def diffPatterns_def)

lemma find_same:
  "findG_part000 t = findG t" "findBig_part000 t = findBig t"
  "findReg_part000 t = findReg t" "findDiff_part000 t = findDiff t"
  by (simp_all add: findG_part000_def findG_def findBig_part000_def findBig_def
      findReg_part000_def findReg_def findDiff_part000_def findDiff_def patterns_same)

lemma parse_same: "parseFromText_part000 raw = parseFromText raw"
  by (simp add: parseFromText_part000_def parseFromText_def normalizeText_same find_same
      tables_same)

text \<open>
  Claim C10. The two files implement the same core: on every state and strategy
  \<open>calcResultByCapture\<close> of the one returns what \<open>calcResultByCapture\<close> of the other returns,
  given the same tables (which they have), and \<open>parseFromText\<close> of both files returns the
  same result for every text.
\<close>

theorem variants_agree:
  "calcResultByCapture_part000 st cap = calcResultByCapture st cap \<and>
   parseFromText_part000 raw = parseFromText raw \<and>
   PRESETS_part000 = PRESETS \<and> STRATEGIES_part000 = STRATEGIES"
  by (simp add: calc_same parse_same tables_same)

theorem variants_agree_witness:
  "calcResultByCapture_part000 initialState
     \<lparr>cap_cherry = Fin 1, cap_bell = Fin 0, cap_piero = Fin 0\<rparr> =
     \<lparr>grapesCount = Fin (46580785 / 87576), grapeProb = Fin (52545600 / 9316157)\<rparr> \<and>
   parseFromText_part000 (asc ''BIG 12'') =
     Some \<lparr>p_modelKey = None, p_G = None, p_big = Some (Fin 12), p_reg = None, p_diff = None\<rparr>"
proof -
  have "calcResultByCapture initialState \<lparr>cap_cherry = Fin 1, cap_bell = Fin 0, cap_piero = Fin 0\<rparr> =
     \<lparr>grapesCount = Fin (46580785 / 87576), grapeProb = Fin (52545600 / 9316157)\<rparr>"
    unfolding calc_reconcile
    by (simp add: initialState_def numberOr_JNum spec_eval js_eval)
  with variants_agree [of initialState "\<lparr>cap_cherry = Fin 1, cap_bell = Fin 0, cap_piero = Fin 0\<rparr>"
      "asc ''BIG 12''"] big12_parsed
  show ?thesis
    by simp
qed

section \<open>The OCR handler: verification\<close>

subsection \<open>C4: what the merge leaves unchanged\<close>

lemma loadPreset_inputs:
  "loadPreset key st = Some s \<Longrightarrow>
   G s = G st \<and> big s = big st \<and> reg s = reg st \<and> diff s = diff st"
  by (auto simp: loadPreset_def split: option.splits)

lemma loadPreset_part000_inputs:
  "loadPreset_part000 key st = Some s \<Longrightarrow>
   G s = JStr [] \<and> big s = JStr [] \<and> reg s = JStr [] \<and> diff s = JStr []"
  by (auto simp: loadPreset_part000_def split: option.splits)

lemma loadPreset_part000_known:
  "knownModel PRESETS_part000 p \<Longrightarrow> \<exists>s. loadPreset_part000 (the (p_modelKey p)) st = Some s"
  by (auto simp: knownModel_def loadPreset_part000_def split: option.splits)

text \<open>A state with a preset of the table loaded satisfies the invariants of the data model.\<close>

lemma map_of_PRESETS_ok: "map_of PRESETS key = Some np \<Longrightarrow> presetOK np"
  using tables_ok(1) by (auto dest: map_of_SomeD)

lemma loadPreset_ok: "loadPreset key st = Some s \<Longrightarrow> presetOK s"
  by (auto simp: loadPreset_def presetOK_def split: option.splits dest!: map_of_PRESETS_ok)

text \<open>The model name of a result is a key of the table; every key is known.\<close>

lemma findModelKey_key: "findModelKey keys t = Some key \<Longrightarrow> key \<in> set keys"
  by (induction keys) (auto split: if_splits)

lemma parse_extractionResult: "parseFromText raw = Some p \<Longrightarrow> extractionResult p"
  using parseFromText_Some [of raw p] findModelKey_key [of "map fst PRESETS" "normalizeText raw"]
  by (auto simp: extractionResult_def split: option.splits)

lemma key_known:
  assumes "key \<in> set (map fst PRESETS)"
  shows "key \<noteq> [] \<and> map_of PRESETS_part000 key \<noteq> None"
proof -
  from assms have "key \<noteq> []"
    by (auto simp: PRESETS_def)
  moreover from assms have "map_of PRESETS key \<noteq> None"
    by (simp add: map_of_eq_None_iff)
  ultimately show ?thesis
    by (simp add: tables_same)
qed

lemma knownModel_result:
  "extractionResult p \<Longrightarrow> knownModel PRESETS_part000 p \<longleftrightarrow> p_modelKey p \<noteq> None"
  using key_known by (auto simp: extractionResult_def knownModel_def split: option.splits)

text \<open>After the preset step, each field is the parsed number or what the step left.\<close>

lemma merge_fields:
  "G (mergeParsed p st) =
     (case p_G p of Some v \<Rightarrow> JNum v | None \<Rightarrow>
        G (if knownModel PRESETS p
           then (case loadPreset (the (p_modelKey p)) st of Some s \<Rightarrow> s | None \<Rightarrow> st) else st))"
  "big (mergeParsed p st) =
     (case p_big p of Some v \<Rightarrow> JNum v | None \<Rightarrow>
        big (if knownModel PRESETS p
           then (case loadPreset (the (p_modelKey p)) st of Some s \<Rightarrow> s | None \<Rightarrow> st) else st))"
  "reg (mergeParsed p st) =
     (case p_reg p of Some v \<Rightarrow> JNum v | None \<Rightarrow>
        reg (if knownModel PRESETS p
           then (case loadPreset (the (p_modelKey p)) st of Some s \<Rightarrow> s | None \<Rightarrow> st) else st))"
  "diff (mergeParsed p st) =
     (case p_diff p of Some v \<Rightarrow> JNum v | None \<Rightarrow>
        diff (if knownModel PRESETS p
           then (case loadPreset (the (p_modelKey p)) st of Some s \<Rightarrow> s | None \<Rightarrow> st) else st))"
  by (simp_all add: mergeParsed_def Let_def split: option.splits)

lemma merge_part000_fields:
  "G (mergeParsed_part000 p st) =
     (case p_G p of Some v \<Rightarrow> JNum v | None \<Rightarrow>
        G (if knownModel PRESETS_part000 p
           then (case loadPreset_part000 (the (p_modelKey p)) st of Some s \<Rightarrow> s | None \<Rightarrow> st)
           else st))"
  "big (mergeParsed_part000 p st) =
     (case p_big p of Some v \<Rightarrow> JNum v | None \<Rightarrow>
        big (if knownModel PRESETS_part000 p
           then (case loadPreset_part000 (the (p_modelKey p)) st of Some s \<Rightarrow> s | None \<Rightarrow> st)
           else st))"
  "reg (mergeParsed_part000 p st) =
     (case p_reg p of Some v \<Rightarrow> JNum v | None \<Rightarrow>
        reg (if knownModel PRESETS_part000 p
           then (case loadPreset_part000 (the (p_modelKey p)) st of Some s \<Rightarrow> s | None \<Rightarrow> st)
           else st))"
  "diff (mergeParsed_part000 p st) =
     (case p_diff p of Some v \<Rightarrow> JNum v | None \<Rightarrow>
        diff (if knownModel PRESETS_part000 p
           then (case loadPreset_part000 (the (p_modelKey p)) st of Some s \<Rightarrow> s | None \<Rightarrow> st)
           else st))"
  by (simp_all add: mergeParsed_part000_def Let_def split: option.splits)

lemma preset_step_keeps:
  "G (case loadPreset key st of Some s \<Rightarrow> s | None \<Rightarrow> st) = G st"
  "big (case loadPreset key st of Some s \<Rightarrow> s | None \<Rightarrow> st) = big st"
  "reg (case loadPreset key st of Some s \<Rightarrow> s | None \<Rightarrow> st) = reg st"
  "diff (case loadPreset key st of Some s \<Rightarrow> s | None \<Rightarrow> st) = diff st"
  using loadPreset_inputs [of key st] by (auto split: option.splits)

lemma preset_step_part000_clears:
  assumes "knownModel PRESETS_part000 p"
  shows "G (case loadPreset_part000 (the (p_modelKey p)) st of Some s \<Rightarrow> s | None \<Rightarrow> st) = JStr []"
    "big (case loadPreset_part000 (the (p_modelKey p)) st of Some s \<Rightarrow> s | None \<Rightarrow> st) = JStr []"
    "reg (case loadPreset_part000 (the (p_modelKey p)) st of Some s \<Rightarrow> s | None \<Rightarrow> st) = JStr []"
    "diff (case loadPreset_part000 (the (p_modelKey p)) st of Some s \<Rightarrow> s | None \<Rightarrow> st) = JStr []"
  using loadPreset_part000_known [OF assms, of st]
    loadPreset_part000_inputs [of "the (p_modelKey p)" st]
  by auto

text \<open>
  Claim C4, corrected. The claim says that every field absent from the extraction result
  keeps the session value entered before, also when the result holds a matched model name.
  In \<open>src/App.tsx\<close> that is so. In the other file \<open>loadPreset\<close> clears the four inputs
  whenever it loads a preset, and the handler calls it for a matched model name before it
  stores the fields. What holds there, for every result that the extraction can return: a
  field absent from the result keeps its session value when the result has no model name,
  and is left empty when it has one. In both files a field present in the result replaces
  the session value.
\<close>

theorem merge_frame:
  assumes "extractionResult p"
  shows
  "((p_G p = None \<longrightarrow> G (mergeParsed p st) = G st) \<and>
    (p_big p = None \<longrightarrow> big (mergeParsed p st) = big st) \<and>
    (p_reg p = None \<longrightarrow> reg (mergeParsed p st) = reg st) \<and>
    (p_diff p = None \<longrightarrow> diff (mergeParsed p st) = diff st)) \<and>
   (p_modelKey p = None \<longrightarrow>
      (p_G p = None \<longrightarrow> G (mergeParsed_part000 p st) = G st) \<and>
      (p_big p = None \<longrightarrow> big (mergeParsed_part000 p st) = big st) \<and>
      (p_reg p = None \<longrightarrow> reg (mergeParsed_part000 p st) = reg st) \<and>
      (p_diff p = None \<longrightarrow> diff (mergeParsed_part000 p st) = diff st)) \<and>
   (p_modelKey p \<noteq> None \<longrightarrow>
      (p_G p = None \<longrightarrow> G (mergeParsed_part000 p st) = JStr []) \<and>
      (p_big p = None \<longrightarrow> big (mergeParsed_part000 p st) = JStr []) \<and>
      (p_reg p = None \<longrightarrow> reg (mergeParsed_part000 p st) = JStr []) \<and>
      (p_diff p = None \<longrightarrow> diff (mergeParsed_part000 p st) = JStr [])) \<and>
   (\<forall>v. (p_G p = Some v \<longrightarrow>
            G (mergeParsed p st) = JNum v \<and> G (mergeParsed_part000 p st) = JNum v) \<and>
        (p_big p = Some v \<longrightarrow>
            big (mergeParsed p st) = JNum v \<and> big (mergeParsed_part000 p st) = JNum v) \<and>
        (p_reg p = Some v \<longrightarrow>
            reg (mergeParsed p st) = JNum v \<and> reg (mergeParsed_part000 p st) = JNum v) \<and>
        (p_diff p = Some v \<longrightarrow>
            diff (mergeParsed p st) = JNum v \<and> diff (mergeParsed_part000 p st) = JNum v))"
proof (intro conjI impI allI)
  note k = knownModel_result [OF assms]
  show "G (mergeParsed p st) = G st" if "p_G p = None"
    using that by (simp add: merge_fields preset_step_keeps)
  show "big (mergeParsed p st) = big st" if "p_big p = None"
    using that by (simp add: merge_fields preset_step_keeps)
  show "reg (mergeParsed p st) = reg st" if "p_reg p = None"
    using that by (simp add: merge_fields preset_step_keeps)
  show "diff (mergeParsed p st) = diff st" if "p_diff p = None"
    using that by (simp add: merge_fields preset_step_keeps)
  show "G (mergeParsed_part000 p st) = G st" if "p_modelKey p = None" "p_G p = None"
    using that k by (simp add: merge_part000_fields)
  show "big (mergeParsed_part000 p st) = big st" if "p_modelKey p = None" "p_big p = None"
    using that k by (simp add: merge_part000_fields)
  show "reg (mergeParsed_part000 p st) = reg st" if "p_modelKey p = None" "p_reg p = None"
    using that k by (simp add: merge_part000_fields)
  show "diff (mergeParsed_part000 p st) = diff st" if "p_modelKey p = None" "p_diff p = None"
    using that k by (simp add: merge_part000_fields)
  show "G (mergeParsed_part000 p st) = JStr []" if "p_modelKey p \<noteq> None" "p_G p = None"
    using that k by (simp add: merge_part000_fields preset_step_part000_clears)
  show "big (mergeParsed_part000 p st) = JStr []" if "p_modelKey p \<noteq> None" "p_big p = None"
    using that k by (simp add: merge_part000_fields preset_step_part000_clears)
  show "reg (mergeParsed_part000 p st) = JStr []" if "p_modelKey p \<noteq> None" "p_reg p = None"
    using that k by (simp add: merge_part000_fields preset_step_part000_clears)
  show "diff (mergeParsed_part000 p st) = JStr []" if "p_modelKey p \<noteq> None" "p_diff p = None"
    using that k by (simp add: merge_part000_fields preset_step_part000_clears)
  show "G (mergeParsed p st) = JNum v" if "p_G p = Some v" for v
    using that by (simp add: merge_fields)
  show "G (mergeParsed_part000 p st) = JNum v" if "p_G p = Some v" for v
    using that by (simp add: merge_part000_fields)
  show "big (mergeParsed p st) = JNum v" if "p_big p = Some v" for v
    using that by (simp add: merge_fields)
  show "big (mergeParsed_part000 p st) = JNum v" if "p_big p = Some v" for v
    using that by (simp add: merge_part000_fields)
  show "reg (mergeParsed p st) = JNum v" if "p_reg p = Some v" for v
    using that by (simp add: merge_fields)
  show "reg (mergeParsed_part000 p st) = JNum v" if "p_reg p = Some v" for v
    using that by (simp add: merge_part000_fields)
  show "diff (mergeParsed p st) = JNum v" if "p_diff p = Some v" for v
    using that by (simp add: merge_fields)
  show "diff (mergeParsed_part000 p st) = JNum v" if "p_diff p = Some v" for v
    using that by (simp add: merge_part000_fields)
qed

text \<open>
  The second file, the text of the first model name followed by \<open>BIG 12\<close>, and 3200
  entered as the spin count before: the result has no spin count, and the spin count of
  the session is empty afterwards.
\<close>

lemma name_big12_trim:
  "trim ([0x30DE, 0x30A4, 0x30B8, 0x30E3, 0x30B0, 0x30E9, 0x30FC, 0x0056] @ asc '' BIG 12'') =
     [0x30DE, 0x30A4, 0x30B8, 0x30E3, 0x30B0, 0x30E9, 0x30FC, 0x0056,
      0x20, 0x42, 0x49, 0x47, 0x20, 0x31, 0x32]"
  by (simp add: trim_def asc_def isSpace_def)

lemma name_big12_text:
  "normalizeText [0x30DE, 0x30A4, 0x30B8, 0x30E3, 0x30B0, 0x30E9, 0x30FC, 0x0056,
      0x20, 0x42, 0x49, 0x47, 0x20, 0x31, 0x32] =
     [0x30DE, 0x30A4, 0x30B8, 0x30E3, 0x30B0, 0x30E9, 0x30FC, 0x0076,
      0x20, 0x62, 0x69, 0x67, 0x20, 0x31, 0x32]"
  by (simp add: norm_eval)

lemma name_big12_fields:
  "findG [0x30DE, 0x30A4, 0x30B8, 0x30E3, 0x30B0, 0x30E9, 0x30FC, 0x0076,
      0x20, 0x62, 0x69, 0x67, 0x20, 0x31, 0x32] = None"
  "findBig [0x30DE, 0x30A4, 0x30B8, 0x30E3, 0x30B0, 0x30E9, 0x30FC, 0x0076,
      0x20, 0x62, 0x69, 0x67, 0x20, 0x31, 0x32] = Some (Fin 12)"
  "findReg [0x30DE, 0x30A4, 0x30B8, 0x30E3, 0x30B0, 0x30E9, 0x30FC, 0x0076,
      0x20, 0x62, 0x69, 0x67, 0x20, 0x31, 0x32] = None"
  "findDiff [0x30DE, 0x30A4, 0x30B8, 0x30E3, 0x30B0, 0x30E9, 0x30FC, 0x0076,
      0x20, 0x62, 0x69, 0x67, 0x20, 0x31, 0x32] = None"
  "findModelKey (map fst PRESETS) [0x30DE, 0x30A4, 0x30B8, 0x30E3, 0x30B0, 0x30E9, 0x30FC, 0x0076,
      0x20, 0x62, 0x69, 0x67, 0x20, 0x31, 0x32] =
     Some [0x30DE, 0x30A4, 0x30B8, 0x30E3, 0x30B0, 0x30E9, 0x30FC, 0x0056]"
  by (simp_all add: findG_def findBig_def findReg_def findDiff_def match_eval int_eval key_eval)

lemma name_big12_parsed:
  "parseFromText_part000
     (trim ([0x30DE, 0x30A4, 0x30B8, 0x30E3, 0x30B0, 0x30E9, 0x30FC, 0x0056] @ asc '' BIG 12'')) =
   Some \<lparr>p_modelKey = Some [0x30DE, 0x30A4, 0x30B8, 0x30E3, 0x30B0, 0x30E9, 0x30FC, 0x0056],
         p_G = None, p_big = Some (Fin 12), p_reg = None, p_diff = None\<rparr>"
  unfolding parse_same name_big12_trim
  by (simp add: parseFromText_def name_big12_text name_big12_fields)

lemma first_name_known:
  "knownModel PRESETS_part000
     \<lparr>p_modelKey = Some [0x30DE, 0x30A4, 0x30B8, 0x30E3, 0x30B0, 0x30E9, 0x30FC, 0x0056],
      p_G = None, p_big = Some (Fin 12), p_reg = None, p_diff = None\<rparr>"
  by (simp add: knownModel_def PRESETS_part000_def)

theorem merge_frame_counterexample:
  "parseFromText_part000
     (trim ([0x30DE, 0x30A4, 0x30B8, 0x30E3, 0x30B0, 0x30E9, 0x30FC, 0x0056] @ asc '' BIG 12'')) =
     Some \<lparr>p_modelKey = Some [0x30DE, 0x30A4, 0x30B8, 0x30E3, 0x30B0, 0x30E9, 0x30FC, 0x0056],
           p_G = None, p_big = Some (Fin 12), p_reg = None, p_diff = None\<rparr> \<and>
   G (initialState_part000\<lparr>G := JStr (asc ''3200'')\<rparr>) = JStr (asc ''3200'') \<and>
   G (handleImageFiles_part000
        ([0x30DE, 0x30A4, 0x30B8, 0x30E3, 0x30B0, 0x30E9, 0x30FC, 0x0056] @ asc '' BIG 12'')
        (initialState_part000\<lparr>G := JStr (asc ''3200'')\<rparr>)) = JStr []"
proof -
  have "G (mergeParsed_part000
        \<lparr>p_modelKey = Some [0x30DE, 0x30A4, 0x30B8, 0x30E3, 0x30B0, 0x30E9, 0x30FC, 0x0056],
         p_G = None, p_big = Some (Fin 12), p_reg = None, p_diff = None\<rparr>
        (initialState_part000\<lparr>G := JStr (asc ''3200'')\<rparr>)) = JStr []"
    using preset_step_part000_clears(1) [OF first_name_known]
    by (simp add: merge_part000_fields first_name_known)
  moreover have "G (initialState_part000\<lparr>G := JStr (asc ''3200'')\<rparr>) = JStr (asc ''3200'')"
    by simp
  ultimately show ?thesis
    unfolding handleImageFiles_part000_def name_big12_parsed by simp
qed

text \<open>
  The result of \<open>BIG 12\<close> alone, with 3200 entered before: the spin count stays. In
  \<open>src/App.tsx\<close> it also stays when the first model name stands in front.
\<close>

theorem merge_frame_witness:
  "parseFromText (asc ''BIG 12'') =
     Some \<lparr>p_modelKey = None, p_G = None, p_big = Some (Fin 12), p_reg = None, p_diff = None\<rparr> \<and>
   extractionResult
     \<lparr>p_modelKey = None, p_G = None, p_big = Some (Fin 12), p_reg = None, p_diff = None\<rparr> \<and>
   G (mergeParsed_part000
        \<lparr>p_modelKey = None, p_G = None, p_big = Some (Fin 12), p_reg = None, p_diff = None\<rparr>
        (initialState_part000\<lparr>G := JStr (asc ''3200'')\<rparr>)) = JStr (asc ''3200'') \<and>
   big (mergeParsed_part000
        \<lparr>p_modelKey = None, p_G = None, p_big = Some (Fin 12), p_reg = None, p_diff = None\<rparr>
        (initialState_part000\<lparr>G := JStr (asc ''3200'')\<rparr>)) = JNum (Fin 12) \<and>
   extractionResult
     \<lparr>p_modelKey = Some [0x30DE, 0x30A4, 0x30B8, 0x30E3, 0x30B0, 0x30E9, 0x30FC, 0x0056],
      p_G = None, p_big = Some (Fin 12), p_reg = None, p_diff = None\<rparr> \<and>
   G (mergeParsed
        \<lparr>p_modelKey = Some [0x30DE, 0x30A4, 0x30B8, 0x30E3, 0x30B0, 0x30E9, 0x30FC, 0x0056],
         p_G = None, p_big = Some (Fin 12), p_reg = None, p_diff = None\<rparr>
        (initialState\<lparr>G := JStr (asc ''3200'')\<rparr>)) = JStr (asc ''3200'')"
proof -
  let ?p = "\<lparr>p_modelKey = None, p_G = None, p_big = Some (Fin 12), p_reg = None,
      p_diff = None\<rparr>"
  let ?q = "\<lparr>p_modelKey = Some [0x30DE, 0x30A4, 0x30B8, 0x30E3, 0x30B0, 0x30E9, 0x30FC, 0x0056],
      p_G = None, p_big = Some (Fin 12), p_reg = None, p_diff = None\<rparr>"
  have p: "extractionResult ?p"
    using big12_parsed by (rule parse_extractionResult)
  have q: "extractionResult ?q"
    using name_big12_parsed unfolding parse_same by (rule parse_extractionResult)
  from merge_frame [OF p, of "initialState_part000\<lparr>G := JStr (asc ''3200'')\<rparr>"]
  have a: "G (mergeParsed_part000 ?p (initialState_part000\<lparr>G := JStr (asc ''3200'')\<rparr>)) =
      JStr (asc ''3200'')"
    "big (mergeParsed_part000 ?p (initialState_part000\<lparr>G := JStr (asc ''3200'')\<rparr>)) =
      JNum (Fin 12)"
    by simp_all
  from merge_frame [OF q, of "initialState\<lparr>G := JStr (asc ''3200'')\<rparr>"]
  have "G (mergeParsed ?q (initialState\<lparr>G := JStr (asc ''3200'')\<rparr>)) = JStr (asc ''3200'')"
    by simp
  with p q a big12_parsed show ?thesis
    by blast
qed

end
